theory Spec2Isabelle
  imports Complex_Main
begin

section \<open>TrendLab: a shallow embedding of \<open>app.py\<close>\<close>

text \<open>
  \<open>app.py\<close> is a Streamlit script: the whole file is run from the top on every user
  interaction. The embedding is a function from the widget values of one run and the
  session state to the outcome of the run, the sequence of page elements it rendered and
  library calls it made, and the session state it left behind.

  The statistics and data-frame routines (pandas, statsmodels, scipy) and the widgets
  (Streamlit) are third-party code. They enter as parameters: a record \<open>libs\<close> of
  functions that return either a raised exception or a value, and a record \<open>ui\<close> of the
  values the widgets hand back in the run at hand.
\<close>

subsection \<open>Python values\<close>

text \<open>
  A Python \<open>float\<close>: the finite values are taken among the reals (every IEEE double is
  one, and \<open><\<close> on doubles is the order of the reals), with the two infinities and NaN.
\<close>

datatype pyfloat = Finite real | PosInf | NegInf | NaN

fun float_lt :: "pyfloat \<Rightarrow> pyfloat \<Rightarrow> bool" where
  "float_lt (Finite a) (Finite b) = (a < b)"
| "float_lt (Finite a) PosInf = True"
| "float_lt NegInf (Finite b) = True"
| "float_lt NegInf PosInf = True"
| "float_lt _ _ = False"

text \<open>The literal \<open>0.05\<close> of the source denotes the double \<open>3602879701896397 / 2^56\<close>.\<close>

definition lit_0_05 :: pyfloat where
  "lit_0_05 = Finite (3602879701896397 / 72057594037927936)"

text \<open>
  The doubles: \<open>m * 2^e\<close> with a 53-bit significand. The predicate is used in statements
  only, to relate the literal above to the decimal \<open>0.05\<close>.
\<close>

definition is_double :: "real \<Rightarrow> bool" where
  "is_double x = (\<exists>(m::int) (e::int). \<bar>m\<bar> < 2 ^ 53 \<and> - 1074 \<le> e \<and> e \<le> 971 \<and>
     x = of_int m * 2 powi e)"

text \<open>A Python exception: the name of its class and \<open>str(e)\<close>.\<close>

datatype exn = Exn (exn_class: string) (exn_message: string)

text \<open>
  \<open>str.lower\<close> and \<open>in\<close> on strings. A string is its UTF-8 bytes. \<open>lower\<close> is modelled on
  the ASCII letters and leaves every other byte as it is; no character outside ASCII
  lowers to one of \<open>d\<close>, \<open>a\<close>, \<open>t\<close>, \<open>e\<close>, so the test \<open>"date" in c.lower()\<close> is the same.
\<close>

definition lower_char :: "char \<Rightarrow> char" where
  "lower_char c =
     (case map_of (zip ''ABCDEFGHIJKLMNOPQRSTUVWXYZ'' ''abcdefghijklmnopqrstuvwxyz'') c of
        None \<Rightarrow> c
      | Some l \<Rightarrow> l)"

definition lower :: "string \<Rightarrow> string" where
  "lower s = map lower_char s"

fun startswith :: "string \<Rightarrow> string \<Rightarrow> bool" where
  "startswith s [] = True"
| "startswith [] (p # ps) = False"
| "startswith (c # cs) (p # ps) = (c = p \<and> startswith cs ps)"

fun str_in :: "string \<Rightarrow> string \<Rightarrow> bool" where
  "str_in sub [] = (sub = [])"
| "str_in sub (c # cs) = (startswith (c # cs) sub \<or> str_in sub cs)"

subsection \<open>Data frames\<close>

datatype dtype = Int64 | Float64 | Object | Boolean | Datetime64

text \<open>
  A cell: a missing value of a text or float column is the float NaN, a missing value of
  a datetime column is \<open>NaT\<close>; a timestamp is counted in days since 1970-01-01.
\<close>

datatype cell = CInt int | CFloat pyfloat | CStr string | CBool bool | CTime int | CNaT

record column =
  cname :: string
  cdtype :: dtype
  cvalues :: "cell list"

text \<open>\<open>findex = None\<close> is the default \<open>RangeIndex\<close>.\<close>

record frame =
  findex :: "column option"
  fcolumns :: "column list"

record series =
  sindex :: "column option"
  sdata :: column

definition frame_columns :: "frame \<Rightarrow> string list" where
  "frame_columns df = map cname (fcolumns df)"

text \<open>
  \<open>df[key]\<close>: the key is what a select box returned, \<open>None\<close> when it had no options.
  A key that names no column raises \<open>KeyError\<close>.
\<close>

definition getitem :: "frame \<Rightarrow> string option \<Rightarrow> exn + series" where
  "getitem df key =
     (case key of
        None \<Rightarrow> Inl (Exn ''KeyError'' ''None'')
      | Some k \<Rightarrow>
          (case find (\<lambda>c. cname c = k) (fcolumns df) of
             None \<Rightarrow> Inl (Exn ''KeyError'' k)
           | Some c \<Rightarrow> Inr \<lparr>sindex = findex df, sdata = c\<rparr>))"

text \<open>\<open>df[k] = s\<close> for a column \<open>k\<close> that exists: the values are replaced in place.\<close>

definition setitem :: "frame \<Rightarrow> string \<Rightarrow> series \<Rightarrow> frame" where
  "setitem df k s =
     df\<lparr>fcolumns := map (\<lambda>c. if cname c = k then (sdata s)\<lparr>cname := k\<rparr> else c) (fcolumns df)\<rparr>"

text \<open>\<open>df.set_index(k, inplace=True)\<close>: the column becomes the index and leaves the columns.\<close>

definition set_index :: "frame \<Rightarrow> string \<Rightarrow> exn + frame" where
  "set_index df k =
     (case find (\<lambda>c. cname c = k) (fcolumns df) of
        None \<Rightarrow> Inl (Exn ''KeyError'' k)
      | Some c \<Rightarrow> Inr \<lparr>findex = Some c, fcolumns = filter (\<lambda>c. cname c \<noteq> k) (fcolumns df)\<rparr>)"

text \<open>\<open>df.head()\<close>: the first five rows.\<close>

definition head_col :: "column \<Rightarrow> column" where
  "head_col c = c\<lparr>cvalues := take 5 (cvalues c)\<rparr>"

definition head :: "frame \<Rightarrow> frame" where
  "head df = \<lparr>findex = map_option head_col (findex df), fcolumns = map head_col (fcolumns df)\<rparr>"

text \<open>\<open>df.select_dtypes(include=ts).columns\<close>\<close>

definition select_dtypes :: "frame \<Rightarrow> dtype list \<Rightarrow> string list" where
  "select_dtypes df ts = map cname (filter (\<lambda>c. cdtype c \<in> set ts) (fcolumns df))"

subsection \<open>Results of the library calls\<close>

datatype decomposition =
  DecomposeResult (observed: series) (trend: series) (seasonal: series) (resid: series)

datatype arima_model = ARIMA_model series "int \<times> int \<times> int"

datatype arima_results = ARIMA_results arima_model "real list"

text \<open>
  Of the tuple \<open>adfuller\<close> returns the script reads components 0 and 1, the statistic and
  the p-value; \<open>ttest_ind\<close> returns statistic and p-value; \<open>chi2_contingency\<close> returns
  statistic, p-value, degrees of freedom and the expected frequencies.
\<close>

record libs =
  read_csv :: "string \<Rightarrow> exn + frame"
  to_datetime :: "series \<Rightarrow> exn + series"
  seasonal_decompose :: "series \<Rightarrow> string \<Rightarrow> int \<Rightarrow> exn + decomposition"
  adfuller :: "series \<Rightarrow> exn + (pyfloat \<times> pyfloat)"
  arima :: "series \<Rightarrow> int \<times> int \<times> int \<Rightarrow> exn + arima_model"
  arima_fit :: "arima_model \<Rightarrow> exn + arima_results"
  arima_forecast :: "arima_results \<Rightarrow> int \<Rightarrow> exn + series"
  ttest_ind :: "series \<Rightarrow> series \<Rightarrow> exn + (pyfloat \<times> pyfloat)"
  crosstab :: "series \<Rightarrow> series \<Rightarrow> exn + frame"
  chi2_contingency :: "frame \<Rightarrow> exn + (pyfloat \<times> pyfloat \<times> int \<times> pyfloat list list)"

text \<open>
  The widgets of one run: whether the button with a label was the one clicked, the
  content of the uploaded file, the option chosen in a select box (\<open>None\<close> when it has no
  options), the position of a slider given its bounds and default.
\<close>

record ui =
  button :: "string \<Rightarrow> bool"
  file_uploader :: "string \<Rightarrow> string option"
  selectbox :: "string \<Rightarrow> string list \<Rightarrow> string option"
  slider :: "string \<Rightarrow> int \<Rightarrow> int \<Rightarrow> int \<Rightarrow> int"

subsection \<open>What a run renders and calls\<close>

text \<open>
  A matplotlib figure: a line chart with its size, its lines (label and data), its title
  and whether \<open>ax.legend()\<close> was called; or the chart \<open>result.plot()\<close> draws for a
  decomposition, with the size set afterwards.
\<close>

datatype figure =
    Line_chart "nat \<times> nat" "(string option \<times> series) list" "string option" bool
  | Decomposition_chart decomposition "nat \<times> nat"

text \<open>
  The arguments of \<open>st.write\<close>: a string, a number, a data frame, or an f-string with one
  interpolated float (the text before it and the float, left unformatted).
\<close>

datatype written = Text string | Number pyfloat | Table frame | Formatted string pyfloat

datatype element =
    Page_config string string
  | Page_style
  | Markdown string
  | Columns nat
  | Container
  | Button string
  | File_uploader string "string list"
  | Selectbox string "string list"
  | Slider string int int int
  | Subheader string
  | Write "written list"
  | Pyplot figure
  | Error string
  | Warning string
  | Success string

datatype lib_call =
    Read_csv string
  | To_datetime series
  | Seasonal_decompose series string int
  | Adfuller series
  | Arima series "int \<times> int \<times> int"
  | Arima_fit arima_model
  | Arima_forecast arima_results int
  | Ttest_ind series series
  | Crosstab series series
  | Chi2_contingency frame

datatype event = Render element | Invoke lib_call

subsection \<open>Runs\<close>

text \<open>
  \<open>st.session_state\<close> is a dictionary; the script uses the key \<open>page\<close> only. A step of
  the script maps the session state and the events so far to a value or to the reason the
  run ended there (\<open>st.stop()\<close>, or an exception nothing caught), and the state after it.
\<close>

type_synonym session_state = "string \<rightharpoonup> string"

record world =
  session :: session_state
  trace :: "event list"

datatype halt = Stop | Raise exn

type_synonym 'a run = "world \<Rightarrow> (halt + 'a) \<times> world"

definition returns :: "'a \<Rightarrow> 'a run" where
  "returns x = (\<lambda>w. (Inr x, w))"

definition bind :: "'a run \<Rightarrow> ('a \<Rightarrow> 'b run) \<Rightarrow> 'b run" where
  "bind m f = (\<lambda>w. case m w of (Inl h, w') \<Rightarrow> (Inl h, w') | (Inr x, w') \<Rightarrow> f x w')"

fun do_all :: "unit run list \<Rightarrow> unit run" where
  "do_all [] = returns ()"
| "do_all (m # ms) = bind m (\<lambda>_. do_all ms)"

definition emit :: "event \<Rightarrow> unit run" where
  "emit e = (\<lambda>w. (Inr (), w\<lparr>trace := trace w @ [e]\<rparr>))"

definition render :: "element \<Rightarrow> unit run" where
  "render el = emit (Render el)"

text \<open>An operation that may raise, with no event of its own (indexing a frame).\<close>

definition lift :: "exn + 'a \<Rightarrow> 'a run" where
  "lift r = (\<lambda>w. (case r of Inl e \<Rightarrow> Inl (Raise e) | Inr v \<Rightarrow> Inr v, w))"

text \<open>A library call: it is recorded, then it returns or raises.\<close>

definition invoke :: "lib_call \<Rightarrow> exn + 'a \<Rightarrow> 'a run" where
  "invoke c r = bind (emit (Invoke c)) (\<lambda>_. lift r)"

text \<open>\<open>st.stop()\<close> ends the run: Streamlit raises a \<open>StopException\<close> it catches itself.\<close>

definition st_stop :: "'a run" where
  "st_stop = (\<lambda>w. (Inl Stop, w))"

text \<open>
  \<open>try: m except Exception as e: h e\<close>. Streamlit's \<open>StopException\<close> derives from
  \<open>BaseException\<close> and passes through; a bare \<open>except:\<close> catches it too.
\<close>

definition try_except :: "'a run \<Rightarrow> (exn \<Rightarrow> 'a run) \<Rightarrow> 'a run" where
  "try_except m h = (\<lambda>w. case m w of (Inl (Raise e), w') \<Rightarrow> h e w' | r \<Rightarrow> r)"

definition try_except_bare :: "'a run \<Rightarrow> 'a run \<Rightarrow> 'a run" where
  "try_except_bare m h = (\<lambda>w. case m w of (Inl _, w') \<Rightarrow> h w' | r \<Rightarrow> r)"

subsection \<open>Streamlit calls\<close>

definition st_markdown :: "string \<Rightarrow> unit run" where
  "st_markdown s = render (Markdown s)"

definition st_subheader :: "string \<Rightarrow> unit run" where
  "st_subheader s = render (Subheader s)"

definition st_write :: "written list \<Rightarrow> unit run" where
  "st_write xs = render (Write xs)"

definition st_pyplot :: "figure \<Rightarrow> unit run" where
  "st_pyplot fig = render (Pyplot fig)"

definition st_error :: "string \<Rightarrow> unit run" where
  "st_error s = render (Error s)"

definition st_warning :: "string \<Rightarrow> unit run" where
  "st_warning s = render (Warning s)"

definition st_success :: "string \<Rightarrow> unit run" where
  "st_success s = render (Success s)"

definition st_button :: "ui \<Rightarrow> string \<Rightarrow> bool run" where
  "st_button U label = bind (render (Button label)) (\<lambda>_. returns (button U label))"

definition st_file_uploader :: "ui \<Rightarrow> string \<Rightarrow> string list \<Rightarrow> string option run" where
  "st_file_uploader U label types =
     bind (render (File_uploader label types)) (\<lambda>_. returns (file_uploader U label))"

definition st_selectbox :: "ui \<Rightarrow> string \<Rightarrow> string list \<Rightarrow> string option run" where
  "st_selectbox U label options =
     bind (render (Selectbox label options)) (\<lambda>_. returns (selectbox U label options))"

definition st_slider :: "ui \<Rightarrow> string \<Rightarrow> int \<Rightarrow> int \<Rightarrow> int \<Rightarrow> int run" where
  "st_slider U label lo hi dflt =
     bind (render (Slider label lo hi dflt)) (\<lambda>_. returns (slider U label lo hi dflt))"

subsection \<open>The script\<close>

text \<open>The characters outside ASCII in the labels, as UTF-8.\<close>

definition chart_up :: string where
  "chart_up = [CHR 0xF0, CHR 0x9F, CHR 0x93, CHR 0x88]"

definition chart_down :: string where
  "chart_down = [CHR 0xF0, CHR 0x9F, CHR 0x93, CHR 0x89]"

definition bar_chart :: string where
  "bar_chart = [CHR 0xF0, CHR 0x9F, CHR 0x93, CHR 0x8A]"

definition left_arrow :: string where
  "left_arrow = [CHR 0xE2, CHR 0xAC, CHR 0x85]"

definition page_icon :: string where
  "page_icon = [CHR 0xF0, CHR 0x9F, CHR 0x93, CHR 0x84]"

definition magnifier :: string where
  "magnifier = [CHR 0xF0, CHR 0x9F, CHR 0x94, CHR 0x8D]"

definition pushpin :: string where
  "pushpin = [CHR 0xF0, CHR 0x9F, CHR 0x93, CHR 0x8C]"

definition crystal_ball :: string where
  "crystal_ball = [CHR 0xF0, CHR 0x9F, CHR 0x94, CHR 0xAE]"

definition em_dash :: string where
  "em_dash = [CHR 0xE2, CHR 0x80, CHR 0x94]"

definition sub_zero :: string where
  "sub_zero = [CHR 0xE2, CHR 0x82, CHR 0x80]"

text \<open>\<open>if "page" not in st.session_state: st.session_state.page = "home"\<close>\<close>

definition init_page :: "unit run" where
  "init_page = (\<lambda>w.
     (Inr (), if ''page'' \<notin> dom (session w)
              then w\<lparr>session := (session w)(''page'' \<mapsto> ''home'')\<rparr> else w))"

definition go_to :: "string \<Rightarrow> unit run" where
  "go_to page = (\<lambda>w. (Inr (), w\<lparr>session := (session w)(''page'' \<mapsto> page)\<rparr>))"

definition card_open :: "unit run" where
  "card_open = st_markdown (''<div class='' @ [CHR 0x27] @ ''card'' @ [CHR 0x27] @ ''>'')"

definition card_close :: "unit run" where
  "card_close = st_markdown ''</div>''"

definition big_title :: "string \<Rightarrow> unit run" where
  "big_title s = st_markdown
     (''<h1 class='' @ [CHR 0x27] @ ''big-title'' @ [CHR 0x27] @ ''>'' @ s @ ''</h1>'')"

definition home_page :: "ui \<Rightarrow> unit run" where
  "home_page U = do_all [
     big_title ''TrendLab'',
     st_markdown (''<p class='' @ [CHR 0x27] @ ''subtitle'' @ [CHR 0x27] @
       ''>Explore Data. Discover Insights. Forecast the Future.</p>''),
     st_markdown (''<div class='' @ [CHR 0x27] @ ''center-buttons'' @ [CHR 0x27] @ ''>''),
     render (Columns 2),
     bind (st_button U (chart_up @ '' Time Series Analysis''))
       (\<lambda>clicked. if clicked then go_to ''time_series'' else returns ()),
     bind (st_button U (bar_chart @ '' Hypothesis Testing''))
       (\<lambda>clicked. if clicked then go_to ''hypothesis'' else returns ()),
     st_markdown ''</div>'']"

text \<open>Lines 112 to 126: reading the file, finding the date column, making it the index.\<close>

definition has_date :: "string \<Rightarrow> bool" where
  "has_date c = str_in ''date'' (lower c)"

definition date_cols :: "frame \<Rightarrow> string list" where
  "date_cols df = filter has_date (frame_columns df)"

definition ts_ingest :: "libs \<Rightarrow> string \<Rightarrow> frame run" where
  "ts_ingest L uploaded_file =
     bind (render Container) (\<lambda>_.
     bind card_open (\<lambda>_.
     bind (invoke (Read_csv uploaded_file) (read_csv L uploaded_file)) (\<lambda>df.
     bind (if length (date_cols df) = 0
           then bind (st_error ''No date column found!'') (\<lambda>_. st_stop)
           else returns ()) (\<lambda>_.
     bind (lift (getitem df (Some (date_cols df ! 0)))) (\<lambda>s.
     bind (invoke (To_datetime s) (to_datetime L s)) (\<lambda>parsed.
     bind (lift (set_index (setitem df (date_cols df ! 0) parsed) (date_cols df ! 0))) (\<lambda>df.
     bind (st_subheader (page_icon @ '' Data Preview'')) (\<lambda>_.
     bind (st_write [Table (head df)]) (\<lambda>_.
     bind card_close (\<lambda>_.
     returns df))))))))))"

text \<open>Lines 133 to 140. The title is an f-string over the chosen column.\<close>

definition str_of_key :: "string option \<Rightarrow> string" where
  "str_of_key k = (case k of None \<Rightarrow> ''None'' | Some s \<Rightarrow> s)"

definition ts_plot :: "frame \<Rightarrow> string option \<Rightarrow> unit run" where
  "ts_plot df column =
     bind card_open (\<lambda>_.
     bind (st_subheader (chart_down @ '' Time Series Plot'')) (\<lambda>_.
     bind (lift (getitem df column)) (\<lambda>s.
     bind (st_pyplot (Line_chart (12, 4) [(None, s)]
             (Some (''Trend Over Time '' @ em_dash @ '' '' @ str_of_key column)) False)) (\<lambda>_.
     card_close))))"

text \<open>Lines 143 to 152.\<close>

definition ts_decomposition :: "libs \<Rightarrow> frame \<Rightarrow> string option \<Rightarrow> unit run" where
  "ts_decomposition L df column =
     bind card_open (\<lambda>_.
     bind (st_subheader (magnifier @ '' Trend, Seasonality & Residual Decomposition'')) (\<lambda>_.
     bind (try_except
            (bind (lift (getitem df column)) (\<lambda>s.
             bind (invoke (Seasonal_decompose s ''additive'' 12)
                     (seasonal_decompose L s ''additive'' 12)) (\<lambda>result.
             st_pyplot (Decomposition_chart result (12, 8)))))
            (\<lambda>e. st_warning (''Decomposition error: '' @ exn_message e))) (\<lambda>_.
     card_close)))"

text \<open>Lines 155 to 164.\<close>

definition ts_adf :: "libs \<Rightarrow> frame \<Rightarrow> string option \<Rightarrow> unit run" where
  "ts_adf L df column =
     bind card_open (\<lambda>_.
     bind (st_subheader (pushpin @ '' ADF Stationarity Test'')) (\<lambda>_.
     bind (lift (getitem df column)) (\<lambda>s.
     bind (invoke (Adfuller s) (adfuller L s)) (\<lambda>adf.
     bind (st_write [Formatted ''**ADF Statistic:** '' (fst adf)]) (\<lambda>_.
     bind (st_write [Formatted ''**p-value:** '' (snd adf)]) (\<lambda>_.
     bind (if float_lt (snd adf) lit_0_05
           then st_success ''Data is Stationary''
           else st_warning ''Data is Not Stationary'') (\<lambda>_.
     card_close)))))))"

text \<open>Lines 167 to 183.\<close>

definition ts_forecast :: "libs \<Rightarrow> ui \<Rightarrow> frame \<Rightarrow> string option \<Rightarrow> unit run" where
  "ts_forecast L U df column =
     bind card_open (\<lambda>_.
     bind (st_subheader (crystal_ball @ '' Forecast (ARIMA)'')) (\<lambda>_.
     bind (st_slider U ''Forecast Steps:'' 5 60 12) (\<lambda>steps.
     bind (try_except_bare
            (bind (lift (getitem df column)) (\<lambda>s.
             bind (invoke (Arima s (1, 1, 1)) (arima L s (1, 1, 1))) (\<lambda>model.
             bind (invoke (Arima_fit model) (arima_fit L model)) (\<lambda>fit.
             bind (invoke (Arima_forecast fit steps) (arima_forecast L fit steps)) (\<lambda>future.
             bind (lift (getitem df column)) (\<lambda>history.
             st_pyplot (Line_chart (12, 4)
               [(Some ''History'', history), (Some ''Forecast'', future)] None True)))))))
            (st_warning ''ARIMA failed. Try more data.'')) (\<lambda>_.
     card_close))))"

text \<open>Lines 104 to 183. The \<open>Back\<close> button's return value is not used.\<close>

definition numeric_cols :: "frame \<Rightarrow> string list" where
  "numeric_cols df = select_dtypes df [Float64, Int64]"

definition time_series_page :: "libs \<Rightarrow> ui \<Rightarrow> unit run" where
  "time_series_page L U =
     bind (st_button U (left_arrow @ '' Back'')) (\<lambda>_.
     bind (big_title (chart_up @ '' Time Series Analysis'')) (\<lambda>_.
     bind (st_file_uploader U ''Upload CSV'' [''csv'']) (\<lambda>uploaded_file.
     case uploaded_file of
       None \<Rightarrow> returns ()
     | Some f \<Rightarrow>
         bind (ts_ingest L f) (\<lambda>df.
         bind (st_selectbox U ''Select Numeric Column'' (numeric_cols df)) (\<lambda>column.
         bind (ts_plot df column) (\<lambda>_.
         bind (ts_decomposition L df column) (\<lambda>_.
         bind (ts_adf L df column) (\<lambda>_.
         ts_forecast L U df column))))))))"

text \<open>Lines 203 to 218.\<close>

definition t_test :: "libs \<Rightarrow> ui \<Rightarrow> frame \<Rightarrow> unit run" where
  "t_test L U df =
     bind (st_selectbox U ''Sample 1'' (numeric_cols df)) (\<lambda>c1.
     bind (st_selectbox U ''Sample 2'' (numeric_cols df)) (\<lambda>c2.
     bind (st_button U ''Run T-Test'') (\<lambda>clicked.
     if clicked then
       bind (lift (getitem df c1)) (\<lambda>s1.
       bind (lift (getitem df c2)) (\<lambda>s2.
       bind (invoke (Ttest_ind s1 s2) (ttest_ind L s1 s2)) (\<lambda>(t, p).
       bind card_open (\<lambda>_.
       bind (st_subheader (pushpin @ '' T-Test Result'')) (\<lambda>_.
       bind (st_write [Text ''T-Statistic:'', Number t]) (\<lambda>_.
       bind (st_write [Text ''p-value:'', Number p]) (\<lambda>_.
       bind (if float_lt p lit_0_05
             then st_success (''Reject H'' @ sub_zero @ '' '' @ em_dash @ '' Significant Difference'')
             else st_warning (''Fail to Reject H'' @ sub_zero)) (\<lambda>_.
       card_close))))))))
     else returns ())))"

text \<open>Lines 220 to 240.\<close>

definition chi_square :: "libs \<Rightarrow> ui \<Rightarrow> frame \<Rightarrow> unit run" where
  "chi_square L U df =
     (let cat_cols = select_dtypes df [Object] in
      if length cat_cols < 2 then st_error ''Need 2 categorical columns!''
      else
        bind (st_selectbox U ''Category 1'' cat_cols) (\<lambda>c1.
        bind (st_selectbox U ''Category 2'' cat_cols) (\<lambda>c2.
        bind (st_button U ''Run Chi-Square'') (\<lambda>clicked.
        if clicked then
          bind (lift (getitem df c1)) (\<lambda>s1.
          bind (lift (getitem df c2)) (\<lambda>s2.
          bind (invoke (Crosstab s1 s2) (crosstab L s1 s2)) (\<lambda>contingency.
          bind (invoke (Chi2_contingency contingency) (chi2_contingency L contingency))
            (\<lambda>(chi, p, dof, exp).
          bind card_open (\<lambda>_.
          bind (st_subheader (pushpin @ '' Chi-Square Result'')) (\<lambda>_.
          bind (st_write [Text ''Chi-Square Value:'', Number chi]) (\<lambda>_.
          bind (st_write [Text ''p-value:'', Number p]) (\<lambda>_.
          bind (if float_lt p lit_0_05
                then st_success (''Reject H'' @ sub_zero @ '' '' @ em_dash @ '' Dependent Variables'')
                else st_warning (''Fail to Reject H'' @ sub_zero @ '' '' @ em_dash @ '' Independent''))
            (\<lambda>_.
          card_close)))))))))
        else returns ()))))"

text \<open>Lines 186 to 240.\<close>

definition hypothesis_page :: "libs \<Rightarrow> ui \<Rightarrow> unit run" where
  "hypothesis_page L U =
     bind (st_button U (left_arrow @ '' Back'')) (\<lambda>_.
     bind (big_title (bar_chart @ '' Hypothesis Testing'')) (\<lambda>_.
     bind (st_file_uploader U ''Upload CSV'' [''csv'']) (\<lambda>uploaded_file.
     case uploaded_file of
       None \<Rightarrow> returns ()
     | Some f \<Rightarrow>
         bind card_open (\<lambda>_.
         bind (invoke (Read_csv f) (read_csv L f)) (\<lambda>df.
         bind (st_subheader (page_icon @ '' Data Preview'')) (\<lambda>_.
         bind (st_write [Table (head df)]) (\<lambda>_.
         bind card_close (\<lambda>_.
         bind (st_selectbox U ''Select Test'' [''T-Test'', ''Chi-Square Test'']) (\<lambda>test.
         if test = Some ''T-Test'' then t_test L U df else chi_square L U df)))))))))"

text \<open>
  The whole file, top to bottom. After \<open>init_page\<close> the key \<open>page\<close> is present, so reading
  \<open>st.session_state.page\<close> does not raise.
\<close>

definition script :: "libs \<Rightarrow> ui \<Rightarrow> unit run" where
  "script L U =
     bind (render (Page_config ''TrendLab'' ''wide'')) (\<lambda>_.
     bind (render Page_style) (\<lambda>_.
     bind init_page (\<lambda>_. (\<lambda>w.
       (if session w ''page'' = Some ''home'' then home_page U
        else if session w ''page'' = Some ''time_series'' then time_series_page L U
        else if session w ''page'' = Some ''hypothesis'' then hypothesis_page L U
        else returns ()) w))))"

text \<open>
  One run of the script in a session: from the session state before it to how the run
  ended (\<open>Inr ()\<close> when it reached the end of the file), what it rendered and called, and
  the session state after it.
\<close>

definition run_script :: "libs \<Rightarrow> ui \<Rightarrow> session_state \<Rightarrow> (halt + unit) \<times> world" where
  "run_script L U ss = script L U \<lparr>session = ss, trace = []\<rparr>"

text \<open>
  An interaction reruns the script. A click on \<open>Back\<close> first runs the button's
  \<open>on_click\<close> callback, \<open>go_to("home")\<close>, and then reruns.
\<close>

datatype interaction = Rerun ui | Click_back ui

fun interact :: "libs \<Rightarrow> interaction \<Rightarrow> session_state \<Rightarrow> session_state" where
  "interact L (Rerun U) ss = session (snd (run_script L U ss))"
| "interact L (Click_back U) ss =
     session (snd (run_script L U (session (snd (go_to ''home'' \<lparr>session = ss, trace = []\<rparr>)))))"

text \<open>The session states of a session: the first load from the empty dictionary, then any interactions.\<close>

inductive reachable :: "libs \<Rightarrow> session_state \<Rightarrow> bool" for L :: libs where
  first_load: "reachable L (interact L (Rerun U) Map.empty)"
| step: "reachable L ss \<Longrightarrow> reachable L (interact L i ss)"

subsection \<open>Results and events of a step\<close>

text \<open>
  Apart from \<open>init_page\<close> and \<open>go_to\<close>, a step of the script leaves the session state as it
  is and appends its events to the trace; its result and its events do not depend on the
  world it starts in. They are read off a run from the empty world.
\<close>

definition fresh :: world where
  "fresh = \<lparr>session = Map.empty, trace = []\<rparr>"

definition result_of :: "'a run \<Rightarrow> halt + 'a" where
  "result_of m = fst (m fresh)"

definition events_of :: "'a run \<Rightarrow> event list" where
  "events_of m = trace (snd (m fresh))"

definition logs :: "'a run \<Rightarrow> bool" where
  "logs m = (\<forall>w. m w = (result_of m, w\<lparr>trace := trace w @ events_of m\<rparr>))"

text \<open>The page elements among the events, in order.\<close>

fun rendered :: "event list \<Rightarrow> element list" where
  "rendered [] = []"
| "rendered (Render el # es) = el # rendered es"
| "rendered (Invoke c # es) = rendered es"

text \<open>The library calls among the events, in order.\<close>

fun invoked :: "event list \<Rightarrow> lib_call list" where
  "invoked [] = []"
| "invoked (Render el # es) = invoked es"
| "invoked (Invoke c # es) = c # invoked es"

subsection \<open>Example inputs\<close>

text \<open>
  Three small uploads and the frames \<open>read_csv\<close> makes of them: monthly sales with an
  \<open>OrderDate\<close> column, a survey with two text columns and no date, and scores with one
  text column and two numeric ones.
\<close>

definition sales_csv :: string where
  "sales_csv = ''OrderDate,Sales'' @ [CHR 0x0A] @ ''2024-01-01,10'' @ [CHR 0x0A] @
     ''2024-02-01,12'' @ [CHR 0x0A] @ ''2024-03-01,9'' @ [CHR 0x0A]"

definition sales_frame :: frame where
  "sales_frame = \<lparr>findex = None, fcolumns =
     [\<lparr>cname = ''OrderDate'', cdtype = Object,
       cvalues = [CStr ''2024-01-01'', CStr ''2024-02-01'', CStr ''2024-03-01'']\<rparr>,
      \<lparr>cname = ''Sales'', cdtype = Int64, cvalues = [CInt 10, CInt 12, CInt 9]\<rparr>]\<rparr>"

definition survey_csv :: string where
  "survey_csv = ''Region,Outcome'' @ [CHR 0x0A] @ ''North,yes'' @ [CHR 0x0A] @
     ''South,no'' @ [CHR 0x0A]"

definition survey_frame :: frame where
  "survey_frame = \<lparr>findex = None, fcolumns =
     [\<lparr>cname = ''Region'', cdtype = Object, cvalues = [CStr ''North'', CStr ''South'']\<rparr>,
      \<lparr>cname = ''Outcome'', cdtype = Object, cvalues = [CStr ''yes'', CStr ''no'']\<rparr>]\<rparr>"

definition scores_csv :: string where
  "scores_csv = ''Group,Before,After'' @ [CHR 0x0A] @ ''a,1.5,2.5'' @ [CHR 0x0A] @
     ''b,2.0,4.0'' @ [CHR 0x0A]"

definition scores_frame :: frame where
  "scores_frame = \<lparr>findex = None, fcolumns =
     [\<lparr>cname = ''Group'', cdtype = Object, cvalues = [CStr ''a'', CStr ''b'']\<rparr>,
      \<lparr>cname = ''Before'', cdtype = Float64,
       cvalues = [CFloat (Finite 1.5), CFloat (Finite 2)]\<rparr>,
      \<lparr>cname = ''After'', cdtype = Float64,
       cvalues = [CFloat (Finite 2.5), CFloat (Finite 4)]\<rparr>]\<rparr>"

text \<open>
  Libraries for the examples. The sales series has three observations: the decomposition
  raises (it asks for two periods, 24 observations). The other calls return.
\<close>

definition example_libs :: libs where
  "example_libs = \<lparr>
     read_csv = (\<lambda>f.
       if f = sales_csv then Inr sales_frame
       else if f = survey_csv then Inr survey_frame
       else if f = scores_csv then Inr scores_frame
       else Inl (Exn ''EmptyDataError'' ''No columns to parse from file'')),
     to_datetime = (\<lambda>s. Inr (s\<lparr>sdata := (sdata s)\<lparr>cdtype := Datetime64\<rparr>\<rparr>)),
     seasonal_decompose = (\<lambda>s m p. Inl (Exn ''ValueError''
       ''x must have 2 complete cycles requires 24 observations. x only has 3 observation(s)'')),
     adfuller = (\<lambda>s. Inr (Finite (- 3), Finite 0.01)),
     arima = (\<lambda>s order. Inr (ARIMA_model s order)),
     arima_fit = (\<lambda>m. Inr (ARIMA_results m [])),
     arima_forecast = (\<lambda>r n. Inr \<lparr>sindex = None, sdata =
       \<lparr>cname = ''predicted_mean'', cdtype = Float64,
        cvalues = replicate (nat n) (CFloat (Finite 0))\<rparr>\<rparr>),
     ttest_ind = (\<lambda>a b. Inr (Finite 2, Finite 0.0499)),
     crosstab = (\<lambda>a b. Inr \<lparr>findex = Some (sdata a), fcolumns = []\<rparr>),
     chi2_contingency = (\<lambda>t. Inr (Finite 4, Finite 0.0501, 1, []))\<rparr>"

text \<open>The same, with \<open>adfuller\<close> raising on the short series as well.\<close>

definition short_series_libs :: libs where
  "short_series_libs = example_libs\<lparr>adfuller := (\<lambda>s. Inl (Exn ''ValueError''
     ''sample size is too short to use selected regression component''))\<rparr>"

text \<open>The same, with the ARIMA fit raising.\<close>

definition failing_fit_libs :: libs where
  "failing_fit_libs = example_libs\<lparr>arima_fit := (\<lambda>m. Inl (Exn ''LinAlgError''
     ''Schur decomposition solver error.''))\<rparr>"

text \<open>
  Widgets for the examples: the uploaded file, the test chosen, the button clicked; the
  other select boxes stay on their first option and the slider on its default.
\<close>

definition example_ui :: "string \<Rightarrow> string \<Rightarrow> string \<Rightarrow> ui" where
  "example_ui file test clicked = \<lparr>
     button = (\<lambda>label. label = clicked),
     file_uploader = (\<lambda>label. Some file),
     selectbox = (\<lambda>label options.
       if label = ''Select Test'' then Some test
       else (case options of [] \<Rightarrow> None | x # _ \<Rightarrow> Some x)),
     slider = (\<lambda>label lo hi dflt. dflt)\<rparr>"

definition on_page :: "string \<Rightarrow> session_state" where
  "on_page p = [''page'' \<mapsto> p]"

text \<open>The sales frame after ingestion, and its \<open>Sales\<close> column as a series.\<close>

definition sales_indexed :: frame where
  "sales_indexed = \<lparr>
     findex = Some \<lparr>cname = ''OrderDate'', cdtype = Datetime64,
       cvalues = [CStr ''2024-01-01'', CStr ''2024-02-01'', CStr ''2024-03-01'']\<rparr>,
     fcolumns = [\<lparr>cname = ''Sales'', cdtype = Int64, cvalues = [CInt 10, CInt 12, CInt 9]\<rparr>]\<rparr>"

definition sales_series :: series where
  "sales_series = \<lparr>
     sindex = Some \<lparr>cname = ''OrderDate'', cdtype = Datetime64,
       cvalues = [CStr ''2024-01-01'', CStr ''2024-02-01'', CStr ''2024-03-01'']\<rparr>,
     sdata = \<lparr>cname = ''Sales'', cdtype = Int64, cvalues = [CInt 10, CInt 12, CInt 9]\<rparr>\<rparr>"

text \<open>
  Orders whose first column is no date and whose second and third both are, under names
  in different cases.
\<close>

definition orders_csv :: string where
  "orders_csv = ''Id,ShipDATE,order_date'' @ [CHR 0x0A] @ ''1,2024-02-01,2024-01-01'' @
     [CHR 0x0A] @ ''2,2024-03-01,2024-02-01'' @ [CHR 0x0A]"

definition orders_frame :: frame where
  "orders_frame = \<lparr>findex = None, fcolumns =
     [\<lparr>cname = ''Id'', cdtype = Int64, cvalues = [CInt 1, CInt 2]\<rparr>,
      \<lparr>cname = ''ShipDATE'', cdtype = Object,
       cvalues = [CStr ''2024-02-01'', CStr ''2024-03-01'']\<rparr>,
      \<lparr>cname = ''order_date'', cdtype = Object,
       cvalues = [CStr ''2024-01-01'', CStr ''2024-02-01'']\<rparr>]\<rparr>"

definition orders_libs :: libs where
  "orders_libs = example_libs\<lparr>read_csv := (\<lambda>f. Inr orders_frame)\<rparr>"












subsection \<open>Dates that do not parse\<close>



subsection \<open>Properties of all events of a run\<close>

text \<open>A step keeps a property of events when every event it adds has it.\<close>

definition always :: "(event \<Rightarrow> bool) \<Rightarrow> 'a run \<Rightarrow> bool" where
  "always P m = (\<forall>w. list_all P (trace w) \<longrightarrow> list_all P (trace (snd (m w))))"

text \<open>
  The arguments the script fixes: the decomposition is additive with period 12, the
  ARIMA order is (1,1,1).
\<close>

fun fixed_arguments :: "event \<Rightarrow> bool" where
  "fixed_arguments (Invoke (Seasonal_decompose s m p)) = (m = ''additive'' \<and> p = 12)"
| "fixed_arguments (Invoke (Arima s order)) = (order = (1, 1, 1))"
| "fixed_arguments _ = True"

text \<open>
  The forecast horizon: the only slider of the script is the one of the forecast, with
  the bounds 5 and 60 and the default 12, and the horizon passed to the forecast is the
  value that slider returned.
\<close>

fun horizon_from_slider :: "ui \<Rightarrow> event \<Rightarrow> bool" where
  "horizon_from_slider U (Render (Slider label lo hi dflt)) =
     (label = ''Forecast Steps:'' \<and> lo = 5 \<and> hi = 60 \<and> dflt = 12)"
| "horizon_from_slider U (Invoke (Arima_forecast fit n)) =
     (n = slider U ''Forecast Steps:'' 5 60 12)"
| "horizon_from_slider U _ = True"

text \<open>The page field holds one of the three pages.\<close>

definition known_page :: "session_state \<Rightarrow> bool" where
  "known_page ss =
     (ss ''page'' = Some ''home'' \<or> ss ''page'' = Some ''time_series'' \<or>
      ss ''page'' = Some ''hypothesis'')"

subsection \<open>Composing steps\<close>

lemma logsI: "(\<And>w. m w = (r, w\<lparr>trace := trace w @ es\<rparr>)) \<Longrightarrow> logs m"
  by (simp add: logs_def result_of_def events_of_def fresh_def)

lemma logs_run: "logs m \<Longrightarrow> m w = (result_of m, w\<lparr>trace := trace w @ events_of m\<rparr>)"
  by (simp add: logs_def)

lemma logs_returns: "logs (returns x)"
  by (rule logsI [where es = "[]"]) (simp add: returns_def)

lemma logs_emit: "logs (emit e)"
  by (rule logsI) (simp add: emit_def)

lemma logs_lift: "logs (lift r)"
  by (rule logsI [where es = "[]"]) (simp add: lift_def)

lemma logs_st_stop: "logs st_stop"
  by (rule logsI [where es = "[]"]) (simp add: st_stop_def)

lemma bind_run:
  assumes "logs m" "\<And>x. logs (f x)"
  shows "bind m f w =
    (case result_of m of Inl h \<Rightarrow> Inl h | Inr x \<Rightarrow> result_of (f x),
     w\<lparr>trace := trace w @ events_of m @
       (case result_of m of Inl h \<Rightarrow> [] | Inr x \<Rightarrow> events_of (f x))\<rparr>)"
  by (cases "result_of m") (simp_all add: bind_def logs_run [OF assms(1)] logs_run [OF assms(2)])

lemma logs_bind: "logs m \<Longrightarrow> (\<And>x. logs (f x)) \<Longrightarrow> logs (bind m f)"
  by (rule logsI) (rule bind_run)

lemma result_bind:
  "logs m \<Longrightarrow> (\<And>x. logs (f x)) \<Longrightarrow>
   result_of (bind m f) = (case result_of m of Inl h \<Rightarrow> Inl h | Inr x \<Rightarrow> result_of (f x))"
  by (simp add: result_of_def [of "bind m f"] bind_run)

lemma events_bind:
  "logs m \<Longrightarrow> (\<And>x. logs (f x)) \<Longrightarrow>
   events_of (bind m f) =
     events_of m @ (case result_of m of Inl h \<Rightarrow> [] | Inr x \<Rightarrow> events_of (f x))"
  by (simp add: events_of_def [of "bind m f"] bind_run fresh_def)

lemma try_except_run:
  assumes "logs m" "\<And>e. logs (h e)"
  shows "try_except m h w =
    (case result_of m of Inl (Raise e) \<Rightarrow> result_of (h e) | r \<Rightarrow> r,
     w\<lparr>trace := trace w @ events_of m @
       (case result_of m of Inl (Raise e) \<Rightarrow> events_of (h e) | _ \<Rightarrow> [])\<rparr>)"
  by (simp add: try_except_def logs_run [OF assms(1)] logs_run [OF assms(2)]
      split: sum.splits halt.splits)

lemma logs_try_except: "logs m \<Longrightarrow> (\<And>e. logs (h e)) \<Longrightarrow> logs (try_except m h)"
  by (rule logsI) (rule try_except_run)

lemma result_try_except:
  "logs m \<Longrightarrow> (\<And>e. logs (h e)) \<Longrightarrow>
   result_of (try_except m h) = (case result_of m of Inl (Raise e) \<Rightarrow> result_of (h e) | r \<Rightarrow> r)"
  by (simp add: result_of_def [of "try_except m h"] try_except_run)

lemma events_try_except:
  "logs m \<Longrightarrow> (\<And>e. logs (h e)) \<Longrightarrow>
   events_of (try_except m h) =
     events_of m @ (case result_of m of Inl (Raise e) \<Rightarrow> events_of (h e) | _ \<Rightarrow> [])"
  by (simp add: events_of_def [of "try_except m h"] try_except_run fresh_def)

lemma try_except_bare_run:
  assumes "logs m" "logs h"
  shows "try_except_bare m h w =
    (case result_of m of Inl _ \<Rightarrow> result_of h | r \<Rightarrow> r,
     w\<lparr>trace := trace w @ events_of m @
       (case result_of m of Inl _ \<Rightarrow> events_of h | _ \<Rightarrow> [])\<rparr>)"
  by (simp add: try_except_bare_def logs_run [OF assms(1)] logs_run [OF assms(2)]
      split: sum.splits)

lemma logs_try_except_bare: "logs m \<Longrightarrow> logs h \<Longrightarrow> logs (try_except_bare m h)"
  by (rule logsI) (rule try_except_bare_run)

lemma result_try_except_bare:
  "logs m \<Longrightarrow> logs h \<Longrightarrow>
   result_of (try_except_bare m h) = (case result_of m of Inl _ \<Rightarrow> result_of h | r \<Rightarrow> r)"
  by (simp add: result_of_def [of "try_except_bare m h"] try_except_bare_run)

lemma events_try_except_bare:
  "logs m \<Longrightarrow> logs h \<Longrightarrow>
   events_of (try_except_bare m h) =
     events_of m @ (case result_of m of Inl _ \<Rightarrow> events_of h | _ \<Rightarrow> [])"
  by (simp add: events_of_def [of "try_except_bare m h"] try_except_bare_run fresh_def)

lemma result_returns: "result_of (returns x) = Inr x"
  by (simp add: result_of_def returns_def)

lemma events_returns: "events_of (returns x) = []"
  by (simp add: events_of_def returns_def fresh_def)

lemma result_emit: "result_of (emit e) = Inr ()"
  by (simp add: result_of_def emit_def)

lemma events_emit: "events_of (emit e) = [e]"
  by (simp add: events_of_def emit_def fresh_def)

lemma result_lift: "result_of (lift r) = (case r of Inl e \<Rightarrow> Inl (Raise e) | Inr v \<Rightarrow> Inr v)"
  by (simp add: result_of_def lift_def)

lemma events_lift: "events_of (lift r) = []"
  by (simp add: events_of_def lift_def fresh_def)

lemma result_st_stop: "result_of st_stop = Inl Stop"
  by (simp add: result_of_def st_stop_def)

lemma events_st_stop: "events_of st_stop = []"
  by (simp add: events_of_def st_stop_def fresh_def)

lemma logs_if: "logs a \<Longrightarrow> logs b \<Longrightarrow> logs (if c then a else b)"
  by simp

lemmas logs_rules =
  logs_returns logs_emit logs_lift logs_st_stop logs_bind logs_try_except logs_try_except_bare
  logs_if

lemmas step_simps =
  result_bind events_bind result_try_except events_try_except
  result_try_except_bare events_try_except_bare
  result_returns events_returns result_emit events_emit result_lift events_lift
  result_st_stop events_st_stop

lemmas st_defs =
  render_def invoke_def st_markdown_def st_subheader_def st_write_def st_pyplot_def
  st_error_def st_warning_def st_success_def st_button_def st_file_uploader_def
  st_selectbox_def st_slider_def card_open_def card_close_def big_title_def


lemma logs_ts_ingest: "logs (ts_ingest L f)"
  unfolding ts_ingest_def st_defs by (intro logs_rules)

lemma logs_ts_plot: "logs (ts_plot df column)"
  unfolding ts_plot_def st_defs by (intro logs_rules)

lemma logs_ts_decomposition: "logs (ts_decomposition L df column)"
  unfolding ts_decomposition_def st_defs by (intro logs_rules)

lemma logs_ts_adf: "logs (ts_adf L df column)"
  unfolding ts_adf_def st_defs by (intro logs_rules)

lemma logs_ts_forecast: "logs (ts_forecast L U df column)"
  unfolding ts_forecast_def st_defs by (intro logs_rules)

lemma logs_case_option: "logs a \<Longrightarrow> (\<And>x. logs (b x)) \<Longrightarrow> logs (case v of None \<Rightarrow> a | Some x \<Rightarrow> b x)"
  by (cases v) simp_all

lemma logs_case_prod: "(\<And>x y. logs (f x y)) \<Longrightarrow> logs (case v of (x, y) \<Rightarrow> f x y)"
  by (cases v) simp

lemma logs_time_series_page: "logs (time_series_page L U)"
  unfolding time_series_page_def st_defs
  by (intro logs_rules logs_case_option logs_ts_ingest logs_ts_plot logs_ts_decomposition
      logs_ts_adf logs_ts_forecast)

lemma logs_t_test: "logs (t_test L U df)"
  unfolding t_test_def st_defs by (intro logs_rules logs_case_prod)

lemma logs_chi_square: "logs (chi_square L U df)"
  unfolding chi_square_def st_defs Let_def by (intro logs_rules logs_case_prod)

lemma logs_hypothesis_page: "logs (hypothesis_page L U)"
  unfolding hypothesis_page_def st_defs
  by (intro logs_rules logs_case_option logs_t_test logs_chi_square)

lemma result_ts_adf:
  "result_of (ts_adf L df column) =
     (case getitem df column of
        Inl e \<Rightarrow> Inl (Raise e)
      | Inr s \<Rightarrow> (case adfuller L s of Inl e \<Rightarrow> Inl (Raise e) | Inr adf \<Rightarrow> Inr ()))"
  unfolding ts_adf_def st_defs
  by (simp add: step_simps logs_rules split: sum.splits)

lemma events_ts_adf:
  "events_of (ts_adf L df column) =
     [Render (Markdown (''<div class='' @ [CHR 0x27] @ ''card'' @ [CHR 0x27] @ ''>'')),
      Render (Subheader (pushpin @ '' ADF Stationarity Test''))] @
     (case getitem df column of
        Inl e \<Rightarrow> []
      | Inr s \<Rightarrow> Invoke (Adfuller s) #
          (case adfuller L s of
             Inl e \<Rightarrow> []
           | Inr adf \<Rightarrow>
               [Render (Write [Formatted ''**ADF Statistic:** '' (fst adf)]),
                Render (Write [Formatted ''**p-value:** '' (snd adf)]),
                Render (if float_lt (snd adf) lit_0_05 then Success ''Data is Stationary''
                        else Warning ''Data is Not Stationary''),
                Render (Markdown ''</div>'')]))"
  unfolding ts_adf_def st_defs
  by (simp add: step_simps logs_rules split: sum.splits)


lemma result_ts_plot:
  "result_of (ts_plot df column) =
     (case getitem df column of Inl e \<Rightarrow> Inl (Raise e) | Inr s \<Rightarrow> Inr ())"
  unfolding ts_plot_def st_defs
  by (simp add: step_simps logs_rules split: sum.splits)

lemma events_ts_plot:
  "events_of (ts_plot df column) =
     [Render (Markdown (''<div class='' @ [CHR 0x27] @ ''card'' @ [CHR 0x27] @ ''>'')),
      Render (Subheader (chart_down @ '' Time Series Plot''))] @
     (case getitem df column of
        Inl e \<Rightarrow> []
      | Inr s \<Rightarrow>
          [Render (Pyplot (Line_chart (12, 4) [(None, s)]
             (Some (''Trend Over Time '' @ em_dash @ '' '' @ str_of_key column)) False)),
           Render (Markdown ''</div>'')])"
  unfolding ts_plot_def st_defs
  by (simp add: step_simps logs_rules split: sum.splits)

lemma result_ts_decomposition: "result_of (ts_decomposition L df column) = Inr ()"
  unfolding ts_decomposition_def st_defs
  by (simp add: step_simps logs_rules split: sum.splits halt.splits)

lemma events_ts_decomposition:
  "events_of (ts_decomposition L df column) =
     [Render (Markdown (''<div class='' @ [CHR 0x27] @ ''card'' @ [CHR 0x27] @ ''>'')),
      Render (Subheader (magnifier @ '' Trend, Seasonality & Residual Decomposition''))] @
     (case getitem df column of
        Inl e \<Rightarrow> [Render (Warning (''Decomposition error: '' @ exn_message e))]
      | Inr s \<Rightarrow> Invoke (Seasonal_decompose s ''additive'' 12) #
          (case seasonal_decompose L s ''additive'' 12 of
             Inl e \<Rightarrow> [Render (Warning (''Decomposition error: '' @ exn_message e))]
           | Inr result \<Rightarrow> [Render (Pyplot (Decomposition_chart result (12, 8)))])) @
     [Render (Markdown ''</div>'')]"
  unfolding ts_decomposition_def st_defs
  by (simp add: step_simps logs_rules split: sum.splits halt.splits)

lemma result_ts_forecast: "result_of (ts_forecast L U df column) = Inr ()"
  unfolding ts_forecast_def st_defs
  by (simp add: step_simps logs_rules split: sum.splits halt.splits)

lemma events_ts_forecast:
  "events_of (ts_forecast L U df column) =
     [Render (Markdown (''<div class='' @ [CHR 0x27] @ ''card'' @ [CHR 0x27] @ ''>'')),
      Render (Subheader (crystal_ball @ '' Forecast (ARIMA)'')),
      Render (Slider ''Forecast Steps:'' 5 60 12)] @
     (case getitem df column of
        Inl e \<Rightarrow> [Render (Warning ''ARIMA failed. Try more data.'')]
      | Inr s \<Rightarrow> Invoke (Arima s (1, 1, 1)) #
          (case arima L s (1, 1, 1) of
             Inl e \<Rightarrow> [Render (Warning ''ARIMA failed. Try more data.'')]
           | Inr model \<Rightarrow> Invoke (Arima_fit model) #
               (case arima_fit L model of
                  Inl e \<Rightarrow> [Render (Warning ''ARIMA failed. Try more data.'')]
                | Inr fit \<Rightarrow>
                    Invoke (Arima_forecast fit (slider U ''Forecast Steps:'' 5 60 12)) #
                    (case arima_forecast L fit (slider U ''Forecast Steps:'' 5 60 12) of
                       Inl e \<Rightarrow> [Render (Warning ''ARIMA failed. Try more data.'')]
                     | Inr future \<Rightarrow>
                         [Render (Pyplot (Line_chart (12, 4)
                            [(Some ''History'', s), (Some ''Forecast'', future)] None True))])))) @
     [Render (Markdown ''</div>'')]"
  unfolding ts_forecast_def st_defs
  by (simp add: step_simps logs_rules split: sum.splits halt.splits)

lemma result_ts_ingest:
  "result_of (ts_ingest L f) =
     (case read_csv L f of
        Inl e \<Rightarrow> Inl (Raise e)
      | Inr df \<Rightarrow>
          if date_cols df = [] then Inl Stop
          else (case getitem df (Some (date_cols df ! 0)) of
                  Inl e \<Rightarrow> Inl (Raise e)
                | Inr s \<Rightarrow>
                    (case to_datetime L s of
                       Inl e \<Rightarrow> Inl (Raise e)
                     | Inr parsed \<Rightarrow>
                         (case set_index (setitem df (date_cols df ! 0) parsed) (date_cols df ! 0) of
                            Inl e \<Rightarrow> Inl (Raise e)
                          | Inr df' \<Rightarrow> Inr df'))))"
  unfolding ts_ingest_def st_defs
  by (simp add: step_simps logs_rules split: sum.splits halt.splits)

lemma events_ts_ingest:
  "events_of (ts_ingest L f) =
     [Render Container,
      Render (Markdown (''<div class='' @ [CHR 0x27] @ ''card'' @ [CHR 0x27] @ ''>'')),
      Invoke (Read_csv f)] @
     (case read_csv L f of
        Inl e \<Rightarrow> []
      | Inr df \<Rightarrow>
          if date_cols df = [] then [Render (Error ''No date column found!'')]
          else (case getitem df (Some (date_cols df ! 0)) of
                  Inl e \<Rightarrow> []
                | Inr s \<Rightarrow> Invoke (To_datetime s) #
                    (case to_datetime L s of
                       Inl e \<Rightarrow> []
                     | Inr parsed \<Rightarrow>
                         (case set_index (setitem df (date_cols df ! 0) parsed) (date_cols df ! 0) of
                            Inl e \<Rightarrow> []
                          | Inr df' \<Rightarrow>
                              [Render (Subheader (page_icon @ '' Data Preview'')),
                               Render (Write [Table (head df')]),
                               Render (Markdown ''</div>'')]))))"
  unfolding ts_ingest_def st_defs
  by (simp add: step_simps logs_rules split: sum.splits halt.splits)


lemmas logs_sections =
  logs_ts_ingest logs_ts_plot logs_ts_decomposition logs_ts_adf logs_ts_forecast
  logs_t_test logs_chi_square logs_case_option logs_case_prod

lemma result_time_series_page:
  "file_uploader U ''Upload CSV'' = Some f \<Longrightarrow>
   result_of (time_series_page L U) =
     (case result_of (ts_ingest L f) of
        Inl h \<Rightarrow> Inl h
      | Inr df \<Rightarrow>
          (case getitem df (selectbox U ''Select Numeric Column'' (numeric_cols df)) of
             Inl e \<Rightarrow> Inl (Raise e)
           | Inr s \<Rightarrow> (case adfuller L s of Inl e \<Rightarrow> Inl (Raise e) | Inr adf \<Rightarrow> Inr ())))"
  unfolding time_series_page_def st_defs
  by (simp add: step_simps logs_rules logs_sections result_ts_plot result_ts_decomposition
      result_ts_adf result_ts_forecast split: sum.splits)

lemma events_time_series_page:
  "file_uploader U ''Upload CSV'' = Some f \<Longrightarrow>
   events_of (time_series_page L U) =
     [Render (Button (left_arrow @ '' Back'')),
      Render (Markdown (''<h1 class='' @ [CHR 0x27] @ ''big-title'' @ [CHR 0x27] @ ''>'' @
        (chart_up @ '' Time Series Analysis'') @ ''</h1>'')),
      Render (File_uploader ''Upload CSV'' [''csv''])] @
     events_of (ts_ingest L f) @
     (case result_of (ts_ingest L f) of
        Inl h \<Rightarrow> []
      | Inr df \<Rightarrow>
          Render (Selectbox ''Select Numeric Column'' (numeric_cols df)) #
          events_of (ts_plot df (selectbox U ''Select Numeric Column'' (numeric_cols df))) @
          (case getitem df (selectbox U ''Select Numeric Column'' (numeric_cols df)) of
             Inl e \<Rightarrow> []
           | Inr s \<Rightarrow>
               events_of (ts_decomposition L df
                 (selectbox U ''Select Numeric Column'' (numeric_cols df))) @
               events_of (ts_adf L df (selectbox U ''Select Numeric Column'' (numeric_cols df))) @
               (case adfuller L s of
                  Inl e \<Rightarrow> []
                | Inr adf \<Rightarrow>
                    events_of (ts_forecast L U df
                      (selectbox U ''Select Numeric Column'' (numeric_cols df))))))"
  unfolding time_series_page_def st_defs
  by (simp add: step_simps logs_rules logs_sections result_ts_plot result_ts_decomposition
      result_ts_adf result_ts_forecast split: sum.splits)

lemma run_script_time_series:
  "ss ''page'' = Some ''time_series'' \<Longrightarrow>
   run_script L U ss =
     (result_of (time_series_page L U),
      \<lparr>session = ss,
       trace = Render (Page_config ''TrendLab'' ''wide'') # Render Page_style #
         events_of (time_series_page L U)\<rparr>)"
  by (simp add: run_script_def script_def bind_def render_def emit_def init_page_def domI
      logs_run [OF logs_time_series_page])

lemma run_script_hypothesis:
  "ss ''page'' = Some ''hypothesis'' \<Longrightarrow>
   run_script L U ss =
     (result_of (hypothesis_page L U),
      \<lparr>session = ss,
       trace = Render (Page_config ''TrendLab'' ''wide'') # Render Page_style #
         events_of (hypothesis_page L U)\<rparr>)"
  by (simp add: run_script_def script_def bind_def render_def emit_def init_page_def domI
      logs_run [OF logs_hypothesis_page])

lemma result_t_test:
  "result_of (t_test L U df) =
     (if button U ''Run T-Test'' then
        (case getitem df (selectbox U ''Sample 1'' (numeric_cols df)) of
           Inl e \<Rightarrow> Inl (Raise e)
         | Inr s1 \<Rightarrow>
             (case getitem df (selectbox U ''Sample 2'' (numeric_cols df)) of
                Inl e \<Rightarrow> Inl (Raise e)
              | Inr s2 \<Rightarrow>
                  (case ttest_ind L s1 s2 of Inl e \<Rightarrow> Inl (Raise e) | Inr tp \<Rightarrow> Inr ())))
      else Inr ())"
  unfolding t_test_def st_defs
  by (simp add: step_simps logs_rules logs_sections split: sum.splits prod.splits)

lemma events_t_test:
  "events_of (t_test L U df) =
     [Render (Selectbox ''Sample 1'' (numeric_cols df)),
      Render (Selectbox ''Sample 2'' (numeric_cols df)),
      Render (Button ''Run T-Test'')] @
     (if button U ''Run T-Test'' then
        (case getitem df (selectbox U ''Sample 1'' (numeric_cols df)) of
           Inl e \<Rightarrow> []
         | Inr s1 \<Rightarrow>
             (case getitem df (selectbox U ''Sample 2'' (numeric_cols df)) of
                Inl e \<Rightarrow> []
              | Inr s2 \<Rightarrow> Invoke (Ttest_ind s1 s2) #
                  (case ttest_ind L s1 s2 of
                     Inl e \<Rightarrow> []
                   | Inr tp \<Rightarrow>
                       [Render (Markdown (''<div class='' @ [CHR 0x27] @ ''card'' @ [CHR 0x27] @ ''>'')),
                        Render (Subheader (pushpin @ '' T-Test Result'')),
                        Render (Write [Text ''T-Statistic:'', Number (fst tp)]),
                        Render (Write [Text ''p-value:'', Number (snd tp)]),
                        Render (if float_lt (snd tp) lit_0_05
                          then Success (''Reject H'' @ sub_zero @ '' '' @ em_dash @
                            '' Significant Difference'')
                          else Warning (''Fail to Reject H'' @ sub_zero)),
                        Render (Markdown ''</div>'')])))
      else [])"
  unfolding t_test_def st_defs
  by (simp add: step_simps logs_rules logs_sections split: sum.splits prod.splits)

lemma result_chi_square:
  "result_of (chi_square L U df) =
     (if length (select_dtypes df [Object]) < 2 then Inr ()
      else if button U ''Run Chi-Square'' then
        (case getitem df (selectbox U ''Category 1'' (select_dtypes df [Object])) of
           Inl e \<Rightarrow> Inl (Raise e)
         | Inr s1 \<Rightarrow>
             (case getitem df (selectbox U ''Category 2'' (select_dtypes df [Object])) of
                Inl e \<Rightarrow> Inl (Raise e)
              | Inr s2 \<Rightarrow>
                  (case crosstab L s1 s2 of
                     Inl e \<Rightarrow> Inl (Raise e)
                   | Inr contingency \<Rightarrow>
                       (case chi2_contingency L contingency of
                          Inl e \<Rightarrow> Inl (Raise e)
                        | Inr r \<Rightarrow> Inr ()))))
      else Inr ())"
  unfolding chi_square_def st_defs Let_def
  by (simp add: step_simps logs_rules logs_sections split: sum.splits prod.splits)

lemma events_chi_square:
  "events_of (chi_square L U df) =
     (if length (select_dtypes df [Object]) < 2
      then [Render (Error ''Need 2 categorical columns!'')]
      else
        [Render (Selectbox ''Category 1'' (select_dtypes df [Object])),
         Render (Selectbox ''Category 2'' (select_dtypes df [Object])),
         Render (Button ''Run Chi-Square'')] @
        (if button U ''Run Chi-Square'' then
           (case getitem df (selectbox U ''Category 1'' (select_dtypes df [Object])) of
              Inl e \<Rightarrow> []
            | Inr s1 \<Rightarrow>
                (case getitem df (selectbox U ''Category 2'' (select_dtypes df [Object])) of
                   Inl e \<Rightarrow> []
                 | Inr s2 \<Rightarrow> Invoke (Crosstab s1 s2) #
                     (case crosstab L s1 s2 of
                        Inl e \<Rightarrow> []
                      | Inr contingency \<Rightarrow> Invoke (Chi2_contingency contingency) #
                          (case chi2_contingency L contingency of
                             Inl e \<Rightarrow> []
                           | Inr r \<Rightarrow>
                               [Render (Markdown (''<div class='' @ [CHR 0x27] @ ''card'' @
                                  [CHR 0x27] @ ''>'')),
                                Render (Subheader (pushpin @ '' Chi-Square Result'')),
                                Render (Write [Text ''Chi-Square Value:'', Number (fst r)]),
                                Render (Write [Text ''p-value:'', Number (fst (snd r))]),
                                Render (if float_lt (fst (snd r)) lit_0_05
                                  then Success (''Reject H'' @ sub_zero @ '' '' @ em_dash @
                                    '' Dependent Variables'')
                                  else Warning (''Fail to Reject H'' @ sub_zero @ '' '' @ em_dash @
                                    '' Independent'')),
                                Render (Markdown ''</div>'')]))))
         else []))"
  unfolding chi_square_def st_defs Let_def
  by (simp add: step_simps logs_rules logs_sections split: sum.splits prod.splits)

lemma result_hypothesis_page:
  "file_uploader U ''Upload CSV'' = Some f \<Longrightarrow>
   result_of (hypothesis_page L U) =
     (case read_csv L f of
        Inl e \<Rightarrow> Inl (Raise e)
      | Inr df \<Rightarrow>
          if selectbox U ''Select Test'' [''T-Test'', ''Chi-Square Test''] = Some ''T-Test''
          then result_of (t_test L U df) else result_of (chi_square L U df))"
  unfolding hypothesis_page_def st_defs
  by (simp add: step_simps logs_rules logs_sections split: sum.splits)

lemma events_hypothesis_page:
  "file_uploader U ''Upload CSV'' = Some f \<Longrightarrow>
   events_of (hypothesis_page L U) =
     [Render (Button (left_arrow @ '' Back'')),
      Render (Markdown (''<h1 class='' @ [CHR 0x27] @ ''big-title'' @ [CHR 0x27] @ ''>'' @
        (bar_chart @ '' Hypothesis Testing'') @ ''</h1>'')),
      Render (File_uploader ''Upload CSV'' [''csv'']),
      Render (Markdown (''<div class='' @ [CHR 0x27] @ ''card'' @ [CHR 0x27] @ ''>'')),
      Invoke (Read_csv f)] @
     (case read_csv L f of
        Inl e \<Rightarrow> []
      | Inr df \<Rightarrow>
          [Render (Subheader (page_icon @ '' Data Preview'')),
           Render (Write [Table (head df)]),
           Render (Markdown ''</div>''),
           Render (Selectbox ''Select Test'' [''T-Test'', ''Chi-Square Test''])] @
          (if selectbox U ''Select Test'' [''T-Test'', ''Chi-Square Test''] = Some ''T-Test''
           then events_of (t_test L U df) else events_of (chi_square L U df)))"
  unfolding hypothesis_page_def st_defs
  by (simp add: step_simps logs_rules logs_sections split: sum.splits)

lemma find_first:
  "(\<forall>x \<in> set pre. \<not> P x) \<Longrightarrow> P c \<Longrightarrow> find P (pre @ c # post) = Some c"
  by (induction pre) simp_all

lemma date_cols_first:
  assumes "fcolumns df = pre @ col # post"
    and "has_date (cname col)"
    and "\<forall>c \<in> set pre. \<not> has_date (cname c)"
  shows "date_cols df = cname col # filter has_date (map cname post)"
proof -
  from assms(3) have "filter has_date (map cname pre) = []"
    by (simp add: filter_empty_conv)
  with assms(1,2) show ?thesis
    by (simp add: date_cols_def frame_columns_def)
qed

lemma getitem_first_date:
  assumes "fcolumns df = pre @ col # post"
    and "has_date (cname col)"
    and "\<forall>c \<in> set pre. \<not> has_date (cname c)"
  shows "getitem df (Some (cname col)) = Inr \<lparr>sindex = findex df, sdata = col\<rparr>"
proof -
  from assms(2,3) have "\<forall>c \<in> set pre. \<not> cname c = cname col"
    by auto
  then have "find (\<lambda>c. cname c = cname col) (pre @ col # post) = Some col"
    by (rule find_first) simp
  with assms(1) show ?thesis
    by (simp add: getitem_def)
qed

lemma find_replaced:
  "find (\<lambda>c. cname c = k) cols = Some c0 \<Longrightarrow>
   find (\<lambda>c. cname c = k) (map (\<lambda>c. if cname c = k then p\<lparr>cname := k\<rparr> else c) cols) =
     Some (p\<lparr>cname := k\<rparr>)"
  by (induction cols) (simp_all split: if_splits)

lemma filter_replaced:
  "filter (\<lambda>c. cname c \<noteq> k) (map (\<lambda>c. if cname c = k then p\<lparr>cname := k\<rparr> else c) cols) =
   filter (\<lambda>c. cname c \<noteq> k) cols"
  by (induction cols) simp_all

lemma set_index_setitem:
  "getitem df (Some k) = Inr s \<Longrightarrow>
   set_index (setitem df k parsed) k =
     Inr \<lparr>findex = Some ((sdata parsed)\<lparr>cname := k\<rparr>),
          fcolumns = filter (\<lambda>c. cname c \<noteq> k) (fcolumns df)\<rparr>"
  by (auto simp add: getitem_def set_index_def setitem_def find_replaced filter_replaced
      split: option.splits)

lemmas icon_defs =
  chart_up_def chart_down_def bar_chart_def left_arrow_def page_icon_def magnifier_def
  pushpin_def crystal_ball_def em_dash_def sub_zero_def

lemma ingest_events_all:
  "\<forall>ev \<in> set (events_of (ts_ingest L f)).
   ev = Render Container \<or>
   ev = Render (Markdown (''<div class='' @ [CHR 0x27] @ ''card'' @ [CHR 0x27] @ ''>'')) \<or>
   ev = Invoke (Read_csv f) \<or>
   ev = Render (Error ''No date column found!'') \<or>
   (\<exists>s. ev = Invoke (To_datetime s)) \<or>
   ev = Render (Subheader (page_icon @ '' Data Preview'')) \<or>
   (\<exists>df. ev = Render (Write [Table df])) \<or>
   ev = Render (Markdown ''</div>'')"
  by (auto simp add: events_ts_ingest split: sum.split)

lemma ingest_events:
  "ev \<in> set (events_of (ts_ingest L f)) \<Longrightarrow>
   ev = Render Container \<or>
   ev = Render (Markdown (''<div class='' @ [CHR 0x27] @ ''card'' @ [CHR 0x27] @ ''>'')) \<or>
   ev = Invoke (Read_csv f) \<or>
   ev = Render (Error ''No date column found!'') \<or>
   (\<exists>s. ev = Invoke (To_datetime s)) \<or>
   ev = Render (Subheader (page_icon @ '' Data Preview'')) \<or>
   (\<exists>df. ev = Render (Write [Table df])) \<or>
   ev = Render (Markdown ''</div>'')"
  using ingest_events_all [of L f] by blast

lemma plot_events_all:
  "\<forall>ev \<in> set (events_of (ts_plot df column)).
   ev = Render (Markdown (''<div class='' @ [CHR 0x27] @ ''card'' @ [CHR 0x27] @ ''>'')) \<or>
   ev = Render (Subheader (chart_down @ '' Time Series Plot'')) \<or>
   (\<exists>fig. ev = Render (Pyplot fig)) \<or>
   ev = Render (Markdown ''</div>'')"
  by (auto simp add: events_ts_plot split: sum.split)

lemma plot_events:
  "ev \<in> set (events_of (ts_plot df column)) \<Longrightarrow>
   ev = Render (Markdown (''<div class='' @ [CHR 0x27] @ ''card'' @ [CHR 0x27] @ ''>'')) \<or>
   ev = Render (Subheader (chart_down @ '' Time Series Plot'')) \<or>
   (\<exists>fig. ev = Render (Pyplot fig)) \<or>
   ev = Render (Markdown ''</div>'')"
  using plot_events_all [of df column] by blast

lemma decomposition_events_all:
  "\<forall>ev \<in> set (events_of (ts_decomposition L df column)).
   ev = Render (Markdown (''<div class='' @ [CHR 0x27] @ ''card'' @ [CHR 0x27] @ ''>'')) \<or>
   ev = Render (Subheader (magnifier @ '' Trend, Seasonality & Residual Decomposition'')) \<or>
   (\<exists>s. ev = Invoke (Seasonal_decompose s ''additive'' 12)) \<or>
   (\<exists>m. ev = Render (Warning (''Decomposition error: '' @ m))) \<or>
   (\<exists>fig. ev = Render (Pyplot fig)) \<or>
   ev = Render (Markdown ''</div>'')"
  by (auto simp add: events_ts_decomposition split: sum.split)

lemma decomposition_events:
  "ev \<in> set (events_of (ts_decomposition L df column)) \<Longrightarrow>
   ev = Render (Markdown (''<div class='' @ [CHR 0x27] @ ''card'' @ [CHR 0x27] @ ''>'')) \<or>
   ev = Render (Subheader (magnifier @ '' Trend, Seasonality & Residual Decomposition'')) \<or>
   (\<exists>s. ev = Invoke (Seasonal_decompose s ''additive'' 12)) \<or>
   (\<exists>m. ev = Render (Warning (''Decomposition error: '' @ m))) \<or>
   (\<exists>fig. ev = Render (Pyplot fig)) \<or>
   ev = Render (Markdown ''</div>'')"
  using decomposition_events_all [of L df column] by blast

lemma example_ingest: "result_of (ts_ingest example_libs sales_csv) = Inr sales_indexed"
  by (simp add: result_ts_ingest example_libs_def sales_frame_def sales_indexed_def
      date_cols_def frame_columns_def has_date_def lower_def lower_char_def
      getitem_def setitem_def set_index_def)

lemma example_getitem: "getitem sales_indexed (Some ''Sales'') = Inr sales_series"
  by (simp add: getitem_def sales_indexed_def sales_series_def)

lemma example_column:
  "selectbox (example_ui sales_csv t c) ''Select Numeric Column'' (numeric_cols sales_indexed) =
     Some ''Sales''"
  by (simp add: example_ui_def numeric_cols_def select_dtypes_def sales_indexed_def)

subsection \<open>Properties kept by every step\<close>

lemma alwaysI:
  "(\<And>w. list_all P (trace w) \<Longrightarrow> list_all P (trace (snd (m w)))) \<Longrightarrow> always P m"
  by (simp add: always_def)

lemma alwaysD: "always P m \<Longrightarrow> list_all P (trace w) \<Longrightarrow> list_all P (trace (snd (m w)))"
  by (simp add: always_def)

lemma always_returns: "always P (returns x)"
  by (simp add: always_def returns_def)

lemma always_emit: "P e \<Longrightarrow> always P (emit e)"
  by (simp add: always_def emit_def)

lemma always_lift: "always P (lift r)"
  by (simp add: always_def lift_def)

lemma always_st_stop: "always P st_stop"
  by (simp add: always_def st_stop_def)

lemma always_init_page: "always P init_page"
  by (simp add: always_def init_page_def)

lemma always_go_to: "always P (go_to page)"
  by (simp add: always_def go_to_def)

lemma always_bind:
  assumes "always P m" "\<And>x. always P (f x)"
  shows "always P (bind m f)"
proof (rule alwaysI)
  fix w :: world
  assume w: "list_all P (trace w)"
  obtain r w' where m: "m w = (r, w')" by (cases "m w")
  from alwaysD [OF assms(1) w] m have w': "list_all P (trace w')" by simp
  show "list_all P (trace (snd (bind m f w)))"
  proof (cases r)
    case (Inl h)
    with m w' show ?thesis by (simp add: bind_def)
  next
    case (Inr x)
    with m alwaysD [OF assms(2) w', of x] show ?thesis by (simp add: bind_def)
  qed
qed

lemma always_try_except:
  assumes "always P m" "\<And>e. always P (h e)"
  shows "always P (try_except m h)"
proof (rule alwaysI)
  fix w :: world
  assume w: "list_all P (trace w)"
  obtain r w' where m: "m w = (r, w')" by (cases "m w")
  from alwaysD [OF assms(1) w] m have w': "list_all P (trace w')" by simp
  with m alwaysD [OF assms(2) w'] show "list_all P (trace (snd (try_except m h w)))"
    by (simp add: try_except_def split: sum.splits halt.splits)
qed

lemma always_try_except_bare:
  assumes "always P m" "always P h"
  shows "always P (try_except_bare m h)"
proof (rule alwaysI)
  fix w :: world
  assume w: "list_all P (trace w)"
  obtain r w' where m: "m w = (r, w')" by (cases "m w")
  from alwaysD [OF assms(1) w] m have w': "list_all P (trace w')" by simp
  with m alwaysD [OF assms(2) w'] show "list_all P (trace (snd (try_except_bare m h w)))"
    by (simp add: try_except_bare_def split: sum.splits)
qed

lemma always_if: "always P a \<Longrightarrow> always P b \<Longrightarrow> always P (if c then a else b)"
  by simp

lemma always_case_option:
  "always P a \<Longrightarrow> (\<And>x. always P (b x)) \<Longrightarrow> always P (case v of None \<Rightarrow> a | Some x \<Rightarrow> b x)"
  by (cases v) simp_all

lemma always_case_prod: "(\<And>x y. always P (f x y)) \<Longrightarrow> always P (case v of (x, y) \<Rightarrow> f x y)"
  by (cases v) simp

lemma always_case_prod3:
  "(\<And>a b c d. always P (f a b c d)) \<Longrightarrow> always P (case v of (a, b, c, d) \<Rightarrow> f a b c d)"
  by (cases v) simp

lemmas always_rules =
  always_returns always_emit always_lift always_st_stop always_init_page always_go_to
  always_bind always_try_except always_try_except_bare always_if always_case_option
  always_case_prod3 always_case_prod

lemma fixed_home_page: "always fixed_arguments (home_page U)"
  unfolding home_page_def st_defs do_all.simps
  by (intro always_rules; simp)

lemma fixed_time_series_page: "always fixed_arguments (time_series_page L U)"
  unfolding time_series_page_def ts_ingest_def ts_plot_def ts_decomposition_def ts_adf_def
    ts_forecast_def st_defs
  by (intro always_rules; simp)

lemma fixed_hypothesis_page: "always fixed_arguments (hypothesis_page L U)"
  unfolding hypothesis_page_def t_test_def chi_square_def Let_def st_defs
  by (intro always_rules; simp)

lemma always_script:
  assumes "P (Render (Page_config ''TrendLab'' ''wide''))" "P (Render Page_style)"
    and "always P (home_page U)" "always P (time_series_page L U)"
    and "always P (hypothesis_page L U)"
  shows "always P (script L U)"
proof (rule alwaysI)
  fix w :: world
  assume w: "list_all P (trace w)"
  have pages: "always P
     (if p = Some ''home'' then home_page U
      else if p = Some ''time_series'' then time_series_page L U
      else if p = Some ''hypothesis'' then hypothesis_page L U
      else returns ())" for p
    by (simp add: assms(3-5) always_returns)
  have head: "always P
      (bind (render (Page_config ''TrendLab'' ''wide'')) (\<lambda>_. bind (render Page_style) (\<lambda>_. init_page)))"
    unfolding st_defs by (intro always_rules assms(1,2))
  obtain r w' where h: "bind (render (Page_config ''TrendLab'' ''wide''))
      (\<lambda>_. bind (render Page_style) (\<lambda>_. init_page)) w = (r, w')"
    by (cases "bind (render (Page_config ''TrendLab'' ''wide''))
      (\<lambda>_. bind (render Page_style) (\<lambda>_. init_page)) w")
  from alwaysD [OF head w] h have w': "list_all P (trace w')"
    by simp
  from h have r: "r = Inr ()"
    by (simp add: bind_def render_def emit_def init_page_def split: if_splits)
  have "script L U w =
      (if session w' ''page'' = Some ''home'' then home_page U
       else if session w' ''page'' = Some ''time_series'' then time_series_page L U
       else if session w' ''page'' = Some ''hypothesis'' then hypothesis_page L U
       else returns ()) w'"
    using h r
    by (simp add: script_def bind_def render_def emit_def init_page_def split: if_splits)
  with alwaysD [OF pages w', of "session w' ''page''"]
  show "list_all P (trace (snd (script L U w)))"
    by simp
qed

lemma fixed_script: "always fixed_arguments (script L U)"
  by (rule always_script) (simp_all add: fixed_home_page fixed_time_series_page
      fixed_hypothesis_page)

lemma fixed_run: "list_all fixed_arguments (trace (snd (run_script L U ss)))"
  unfolding run_script_def by (rule alwaysD [OF fixed_script]) simp

lemmas example_defs =
  example_libs_def short_series_libs_def failing_fit_libs_def
  example_ui_def on_page_def sales_frame_def sales_indexed_def sales_series_def
  survey_frame_def scores_frame_def

lemmas frame_defs =
  date_cols_def frame_columns_def has_date_def lower_def lower_char_def getitem_def
  setitem_def set_index_def numeric_cols_def select_dtypes_def head_def head_col_def
  str_of_key_def

lemmas run_simps =
  run_script_time_series result_time_series_page events_time_series_page
  result_ts_ingest events_ts_ingest result_ts_plot events_ts_plot
  result_ts_decomposition events_ts_decomposition result_ts_adf events_ts_adf
  result_ts_forecast events_ts_forecast
  run_script_hypothesis result_hypothesis_page events_hypothesis_page
  result_t_test events_t_test result_chi_square events_chi_square

lemma list_all_mem: "list_all P xs \<Longrightarrow> x \<in> set xs \<Longrightarrow> P x"
  by (simp add: list_all_iff)

lemma always_logs:
  assumes "logs m" "list_all P (events_of m)"
  shows "always P m"
  by (rule alwaysI) (simp add: logs_run [OF assms(1)] assms(2))

lemma horizon_ts_forecast: "always (horizon_from_slider U) (ts_forecast L U df column)"
  by (rule always_logs [OF logs_ts_forecast])
    (simp add: events_ts_forecast split: sum.split)

lemma horizon_home_page: "always (horizon_from_slider U) (home_page U')"
  unfolding home_page_def st_defs do_all.simps
  by (intro always_rules; simp)

lemma horizon_time_series_page: "always (horizon_from_slider U) (time_series_page L U)"
  unfolding time_series_page_def ts_ingest_def ts_plot_def ts_decomposition_def ts_adf_def
    st_defs
  by (intro always_rules horizon_ts_forecast; simp)

lemma horizon_hypothesis_page: "always (horizon_from_slider U) (hypothesis_page L U')"
  unfolding hypothesis_page_def t_test_def chi_square_def Let_def st_defs
  by (intro always_rules; simp)

lemma horizon_run: "list_all (horizon_from_slider U) (trace (snd (run_script L U ss)))"
  unfolding run_script_def
  by (rule alwaysD [OF always_script]) (simp_all add: horizon_home_page
      horizon_time_series_page horizon_hypothesis_page)

subsection \<open>The page field\<close>

lemma logs_session: "logs m \<Longrightarrow> session (snd (m w)) = session w"
  by (simp add: logs_run)

lemma home_page_session:
  "session (snd (home_page U w)) =
     (if button U (bar_chart @ '' Hypothesis Testing'')
      then (session w)(''page'' \<mapsto> ''hypothesis'')
      else if button U (chart_up @ '' Time Series Analysis'')
      then (session w)(''page'' \<mapsto> ''time_series'')
      else session w)"
  by (simp add: home_page_def st_defs bind_def emit_def returns_def go_to_def)

lemma script_session:
  "session (snd (script L U w)) =
     (let ss = (if ''page'' \<notin> dom (session w) then (session w)(''page'' \<mapsto> ''home'')
                else session w)
      in if ss ''page'' = Some ''home'' then
           (if button U (bar_chart @ '' Hypothesis Testing'')
            then ss(''page'' \<mapsto> ''hypothesis'')
            else if button U (chart_up @ '' Time Series Analysis'')
            then ss(''page'' \<mapsto> ''time_series'')
            else ss)
         else ss)"
  by (simp add: script_def bind_def render_def emit_def init_page_def returns_def Let_def
      home_page_session logs_session [OF logs_time_series_page]
      logs_session [OF logs_hypothesis_page])

lemma known_after_run:
  "ss ''page'' = None \<or> known_page ss \<Longrightarrow> known_page (session (snd (run_script L U ss)))"
  by (auto simp add: run_script_def script_session known_page_def Let_def dom_def)

lemma known_after_interact: "known_page ss \<Longrightarrow> known_page (interact L i ss)"
proof (cases i)
  case (Rerun U)
  assume "known_page ss"
  with Rerun show ?thesis by (simp add: known_after_run)
next
  case (Click_back U)
  have "known_page (session (snd (go_to ''home'' \<lparr>session = ss, trace = []\<rparr>)))"
    by (simp add: go_to_def known_page_def)
  with Click_back show ?thesis by (simp add: known_after_run)
qed

subsection \<open>Verdicts\<close>

lemma forecast_events_all:
  "\<forall>ev \<in> set (events_of (ts_forecast L U df column)).
   ev = Render (Markdown (''<div class='' @ [CHR 0x27] @ ''card'' @ [CHR 0x27] @ ''>'')) \<or>
   ev = Render (Subheader (crystal_ball @ '' Forecast (ARIMA)'')) \<or>
   ev = Render (Slider ''Forecast Steps:'' 5 60 12) \<or>
   (\<exists>c. ev = Invoke c) \<or>
   ev = Render (Warning ''ARIMA failed. Try more data.'') \<or>
   (\<exists>fig. ev = Render (Pyplot fig)) \<or>
   ev = Render (Markdown ''</div>'')"
  by (auto simp add: events_ts_forecast split: sum.split)

lemma forecast_events:
  "ev \<in> set (events_of (ts_forecast L U df column)) \<Longrightarrow>
   ev = Render (Markdown (''<div class='' @ [CHR 0x27] @ ''card'' @ [CHR 0x27] @ ''>'')) \<or>
   ev = Render (Subheader (crystal_ball @ '' Forecast (ARIMA)'')) \<or>
   ev = Render (Slider ''Forecast Steps:'' 5 60 12) \<or>
   (\<exists>c. ev = Invoke c) \<or>
   ev = Render (Warning ''ARIMA failed. Try more data.'') \<or>
   (\<exists>fig. ev = Render (Pyplot fig)) \<or>
   ev = Render (Markdown ''</div>'')"
  using forecast_events_all [of L U df column] by blast

lemma adf_verdict:
  assumes "ss ''page'' = Some ''time_series''"
    and "file_uploader U ''Upload CSV'' = Some f"
    and "result_of (ts_ingest L f) = Inr df"
    and "getitem df (selectbox U ''Select Numeric Column'' (numeric_cols df)) = Inr s"
    and "adfuller L s = Inr (stat, p)"
  shows "(Render (Success ''Data is Stationary'') \<in> set (trace (snd (run_script L U ss))) \<longleftrightarrow>
      float_lt p lit_0_05) \<and>
    (Render (Warning ''Data is Not Stationary'') \<in> set (trace (snd (run_script L U ss))) \<longleftrightarrow>
      \<not> float_lt p lit_0_05)"
proof -
  let ?column = "selectbox U ''Select Numeric Column'' (numeric_cols df)"
  have tr: "trace (snd (run_script L U ss)) =
      [Render (Page_config ''TrendLab'' ''wide''),
       Render Page_style,
       Render (Button (left_arrow @ '' Back'')),
       Render (Markdown (''<h1 class='' @ [CHR 0x27] @ ''big-title'' @ [CHR 0x27] @ ''>'' @
         (chart_up @ '' Time Series Analysis'') @ ''</h1>'')),
       Render (File_uploader ''Upload CSV'' [''csv''])] @
      events_of (ts_ingest L f) @
      [Render (Selectbox ''Select Numeric Column'' (numeric_cols df))] @
      events_of (ts_plot df ?column) @
      events_of (ts_decomposition L df ?column) @
      [Render (Markdown (''<div class='' @ [CHR 0x27] @ ''card'' @ [CHR 0x27] @ ''>'')),
       Render (Subheader (pushpin @ '' ADF Stationarity Test'')),
       Invoke (Adfuller s),
       Render (Write [Formatted ''**ADF Statistic:** '' stat]),
       Render (Write [Formatted ''**p-value:** '' p]),
       Render (if float_lt p lit_0_05 then Success ''Data is Stationary''
               else Warning ''Data is Not Stationary''),
       Render (Markdown ''</div>'')] @
      events_of (ts_forecast L U df ?column)"
    using assms by (simp add: run_script_time_series events_time_series_page events_ts_adf)
  show ?thesis
    unfolding tr
    by (auto dest!: ingest_events plot_events decomposition_events forecast_events)
qed

lemma t_test_verdict:
  assumes "ss ''page'' = Some ''hypothesis''"
    and "file_uploader U ''Upload CSV'' = Some f"
    and "read_csv L f = Inr df"
    and "selectbox U ''Select Test'' [''T-Test'', ''Chi-Square Test''] = Some ''T-Test''"
    and "button U ''Run T-Test''"
    and "getitem df (selectbox U ''Sample 1'' (numeric_cols df)) = Inr s1"
    and "getitem df (selectbox U ''Sample 2'' (numeric_cols df)) = Inr s2"
    and "ttest_ind L s1 s2 = Inr (t, p)"
  shows "(Render (Success (''Reject H'' @ sub_zero @ '' '' @ em_dash @ '' Significant Difference''))
        \<in> set (trace (snd (run_script L U ss))) \<longleftrightarrow> float_lt p lit_0_05) \<and>
    (Render (Warning (''Fail to Reject H'' @ sub_zero))
        \<in> set (trace (snd (run_script L U ss))) \<longleftrightarrow> \<not> float_lt p lit_0_05)"
  using assms
  by (simp add: run_script_hypothesis events_hypothesis_page events_t_test icon_defs)

lemma chi_square_verdict:
  assumes "ss ''page'' = Some ''hypothesis''"
    and "file_uploader U ''Upload CSV'' = Some f"
    and "read_csv L f = Inr df"
    and "selectbox U ''Select Test'' [''T-Test'', ''Chi-Square Test''] = Some ''Chi-Square Test''"
    and "\<not> length (select_dtypes df [Object]) < 2"
    and "button U ''Run Chi-Square''"
    and "getitem df (selectbox U ''Category 1'' (select_dtypes df [Object])) = Inr s1"
    and "getitem df (selectbox U ''Category 2'' (select_dtypes df [Object])) = Inr s2"
    and "crosstab L s1 s2 = Inr contingency"
    and "chi2_contingency L contingency = Inr (chi, p, dof, expected)"
  shows "(Render (Success (''Reject H'' @ sub_zero @ '' '' @ em_dash @ '' Dependent Variables''))
        \<in> set (trace (snd (run_script L U ss))) \<longleftrightarrow> float_lt p lit_0_05) \<and>
    (Render (Warning (''Fail to Reject H'' @ sub_zero @ '' '' @ em_dash @ '' Independent''))
        \<in> set (trace (snd (run_script L U ss))) \<longleftrightarrow> \<not> float_lt p lit_0_05)"
  using assms
  by (simp add: run_script_hypothesis events_hypothesis_page events_chi_square icon_defs)

lemma double_below_literal:
  fixes m e :: int and x :: real
  assumes m: "\<bar>m\<bar> < 2 ^ 53" and x: "x = of_int m * 2 powi e"
  shows "(x < 3602879701896397 / 72057594037927936) = (x < 5 / 100)"
proof
  assume "x < 5 / 100"
  then show "x < 3602879701896397 / 72057594037927936" by simp
next
  assume below: "x < 3602879701896397 / 72057594037927936"
  show "x < 5 / 100"
  proof (rule ccontr)
    assume "\<not> x < 5 / 100"
    then have ge: "5 / 100 \<le> x" by simp
    have pos: "(0::real) < 2 powi e" by simp
    have e: "- 57 \<le> e"
    proof (rule ccontr)
      assume "\<not> - 57 \<le> e"
      then have "e \<le> - 58" by simp
      then have small: "(2::real) powi e \<le> 2 powi (- 58)"
        by (intro power_int_increasing) simp_all
      have bound: "of_int m < (2::real) ^ 53"
        using m by (metis abs_less_iff of_int_less_numeral_power_cancel_iff)
      have nonneg: "0 \<le> (of_int m :: real)"
      proof (rule ccontr)
        assume "\<not> 0 \<le> (of_int m :: real)"
        then have "(of_int m :: real) * 2 powi e < 0"
          using pos by (simp add: mult_less_0_iff)
        with ge x show False by simp
      qed
      have "of_int m * 2 powi e \<le> of_int m * (2::real) powi (- 58)"
        using small nonneg by (rule mult_left_mono)
      moreover have "of_int m * (2::real) powi (- 58) < 2 ^ 53 * 2 powi (- 58)"
        using bound by (rule mult_strict_right_mono) simp
      ultimately have "x < 2 ^ 53 * 2 powi (- 58)"
        unfolding x by (rule le_less_trans)
      also have "\<dots> = 1 / 32" by (simp add: power_int_minus)
      finally show False using ge by simp
    qed
    define n where "n = nat (e + 57)"
    have "(2::real) powi e = 2 powi (int n - 57)"
      using e by (simp add: n_def)
    also have "\<dots> = 2 ^ n / 2 ^ 57"
      by (simp add: power_int_diff)
    finally have pw: "(2::real) powi e = 2 ^ n / 2 ^ 57" .
    define k where "k = m * 2 ^ n"
    have xk: "x = of_int k / 2 ^ 57"
      by (simp add: x pw k_def)
    from ge have "(5::real) * 2 ^ 57 \<le> 100 * of_int k"
      by (simp add: xk field_simps)
    then have "of_int (5 * 2 ^ 57) \<le> (of_int (100 * k) :: real)"
      by simp
    then have lo: "5 * 2 ^ 57 \<le> 100 * k"
      by (simp only: of_int_le_iff)
    from below have "(of_int k :: real) < 7205759403792794"
      by (simp add: xk field_simps)
    then have "(of_int k :: real) < of_int 7205759403792794"
      by simp
    then have hi: "k < 7205759403792794"
      by (simp only: of_int_less_iff)
    from lo hi show False by simp
  qed
qed

subsection \<open>The date conversion\<close>




section \<open>The claims\<close>

text \<open>
  C1. In a run in which the ADF test, the t-test or the chi-square test returns the
  p-value \<open>p\<close>, the success verdict of that test is rendered exactly when \<open>p < 0.05\<close> and
  the complementary verdict exactly when not, whatever else the run holds. The comparison
  is Python's on floats with the literal \<open>0.05\<close>: \<open>0.0499\<close> is below it, \<open>0.0501\<close> is not,
  the value \<open>0.05\<close> itself is not, and NaN is not; on the doubles, being below the
  literal is being below the decimal \<open>0.05\<close>.
\<close>

theorem verdict_follows_threshold:
  "(ss ''page'' = Some ''time_series'' \<and>
    file_uploader U ''Upload CSV'' = Some f \<and>
    result_of (ts_ingest L f) = Inr df \<and>
    getitem df (selectbox U ''Select Numeric Column'' (numeric_cols df)) = Inr s \<and>
    adfuller L s = Inr (stat, p) \<longrightarrow>
      (Render (Success ''Data is Stationary'') \<in> set (trace (snd (run_script L U ss))) \<longleftrightarrow>
         float_lt p lit_0_05) \<and>
      (Render (Warning ''Data is Not Stationary'') \<in> set (trace (snd (run_script L U ss))) \<longleftrightarrow>
         \<not> float_lt p lit_0_05)) \<and>
   (ss ''page'' = Some ''hypothesis'' \<and>
    file_uploader U ''Upload CSV'' = Some f \<and>
    read_csv L f = Inr df \<and>
    selectbox U ''Select Test'' [''T-Test'', ''Chi-Square Test''] = Some ''T-Test'' \<and>
    button U ''Run T-Test'' \<and>
    getitem df (selectbox U ''Sample 1'' (numeric_cols df)) = Inr s1 \<and>
    getitem df (selectbox U ''Sample 2'' (numeric_cols df)) = Inr s2 \<and>
    ttest_ind L s1 s2 = Inr (t, p) \<longrightarrow>
      (Render (Success (''Reject H'' @ sub_zero @ '' '' @ em_dash @ '' Significant Difference''))
         \<in> set (trace (snd (run_script L U ss))) \<longleftrightarrow> float_lt p lit_0_05) \<and>
      (Render (Warning (''Fail to Reject H'' @ sub_zero))
         \<in> set (trace (snd (run_script L U ss))) \<longleftrightarrow> \<not> float_lt p lit_0_05)) \<and>
   (ss ''page'' = Some ''hypothesis'' \<and>
    file_uploader U ''Upload CSV'' = Some f \<and>
    read_csv L f = Inr df \<and>
    selectbox U ''Select Test'' [''T-Test'', ''Chi-Square Test''] = Some ''Chi-Square Test'' \<and>
    \<not> length (select_dtypes df [Object]) < 2 \<and>
    button U ''Run Chi-Square'' \<and>
    getitem df (selectbox U ''Category 1'' (select_dtypes df [Object])) = Inr s1 \<and>
    getitem df (selectbox U ''Category 2'' (select_dtypes df [Object])) = Inr s2 \<and>
    crosstab L s1 s2 = Inr contingency \<and>
    chi2_contingency L contingency = Inr (chi, p, dof, expected) \<longrightarrow>
      (Render (Success (''Reject H'' @ sub_zero @ '' '' @ em_dash @ '' Dependent Variables''))
         \<in> set (trace (snd (run_script L U ss))) \<longleftrightarrow> float_lt p lit_0_05) \<and>
      (Render (Warning (''Fail to Reject H'' @ sub_zero @ '' '' @ em_dash @ '' Independent''))
         \<in> set (trace (snd (run_script L U ss))) \<longleftrightarrow> \<not> float_lt p lit_0_05)) \<and>
   float_lt (Finite 0.0499) lit_0_05 \<and>
   \<not> float_lt (Finite 0.0501) lit_0_05 \<and>
   \<not> float_lt lit_0_05 lit_0_05 \<and>
   \<not> float_lt NaN lit_0_05 \<and>
   (\<forall>x. is_double x \<longrightarrow> float_lt (Finite x) lit_0_05 = (x < 5 / 100))"
proof -
  have doubles: "float_lt (Finite x) lit_0_05 = (x < 5 / 100)" if "is_double x" for x
  proof -
    from that obtain m e :: int where "\<bar>m\<bar> < 2 ^ 53" and "x = of_int m * 2 powi e"
      unfolding is_double_def by blast
    then show ?thesis
      by (simp only: lit_0_05_def float_lt.simps double_below_literal)
  qed
  have boundary: "float_lt (Finite 0.0499) lit_0_05" "\<not> float_lt (Finite 0.0501) lit_0_05"
    "\<not> float_lt lit_0_05 lit_0_05" "\<not> float_lt NaN lit_0_05"
    by (simp_all add: lit_0_05_def)
  show ?thesis
    by (intro conjI impI allI boundary doubles; (elim conjE)?;
        (rule adf_verdict [THEN conjunct1] adf_verdict [THEN conjunct2]
           t_test_verdict [THEN conjunct1] t_test_verdict [THEN conjunct2]
           chi_square_verdict [THEN conjunct1] chi_square_verdict [THEN conjunct2];
         assumption)?)
qed

theorem verdict_follows_threshold_witness:
  "Render (Success ''Data is Stationary'')
     \<in> set (trace (snd (run_script example_libs (example_ui sales_csv ''T-Test'' [])
           (on_page ''time_series'')))) \<and>
   Render (Success (''Reject H'' @ sub_zero @ '' '' @ em_dash @ '' Significant Difference''))
     \<in> set (trace (snd (run_script example_libs (example_ui scores_csv ''T-Test'' ''Run T-Test'')
           (on_page ''hypothesis'')))) \<and>
   Render (Warning (''Fail to Reject H'' @ sub_zero @ '' '' @ em_dash @ '' Independent''))
     \<in> set (trace (snd (run_script example_libs
           (example_ui survey_csv ''Chi-Square Test'' ''Run Chi-Square'')
           (on_page ''hypothesis''))))"
proof -
  let ?before = "\<lparr>sindex = None, sdata = \<lparr>cname = ''Before'', cdtype = Float64,
    cvalues = [CFloat (Finite 1.5), CFloat (Finite 2)]\<rparr>\<rparr>"
  let ?region = "\<lparr>sindex = None, sdata = \<lparr>cname = ''Region'', cdtype = Object,
    cvalues = [CStr ''North'', CStr ''South'']\<rparr>\<rparr>"
  let ?table = "\<lparr>findex = Some \<lparr>cname = ''Region'', cdtype = Object,
    cvalues = [CStr ''North'', CStr ''South'']\<rparr>, fcolumns = []\<rparr>"
  have adf: "on_page ''time_series'' ''page'' = Some ''time_series'' \<and>
      file_uploader (example_ui sales_csv ''T-Test'' []) ''Upload CSV'' = Some sales_csv \<and>
      result_of (ts_ingest example_libs sales_csv) = Inr sales_indexed \<and>
      getitem sales_indexed (selectbox (example_ui sales_csv ''T-Test'' [])
        ''Select Numeric Column'' (numeric_cols sales_indexed)) = Inr sales_series \<and>
      adfuller example_libs sales_series = Inr (Finite (- 3), Finite 0.01)"
    by (simp add: example_ingest example_column example_getitem)
      (simp add: on_page_def example_ui_def example_libs_def)
  have small: "float_lt (Finite 0.01) lit_0_05"
    by (simp add: lit_0_05_def)
  from verdict_follows_threshold [where ss = "on_page ''time_series''"
      and U = "example_ui sales_csv ''T-Test'' []" and f = sales_csv and L = example_libs
      and df = sales_indexed and s = sales_series and stat = "Finite (- 3)"
      and p = "Finite 0.01"] adf small
  have first: "Render (Success ''Data is Stationary'')
     \<in> set (trace (snd (run_script example_libs (example_ui sales_csv ''T-Test'' [])
           (on_page ''time_series''))))"
    by blast
  have ttest: "on_page ''hypothesis'' ''page'' = Some ''hypothesis'' \<and>
      file_uploader (example_ui scores_csv ''T-Test'' ''Run T-Test'') ''Upload CSV'' =
        Some scores_csv \<and>
      read_csv example_libs scores_csv = Inr scores_frame \<and>
      selectbox (example_ui scores_csv ''T-Test'' ''Run T-Test'') ''Select Test''
        [''T-Test'', ''Chi-Square Test''] = Some ''T-Test'' \<and>
      button (example_ui scores_csv ''T-Test'' ''Run T-Test'') ''Run T-Test'' \<and>
      getitem scores_frame (selectbox (example_ui scores_csv ''T-Test'' ''Run T-Test'')
        ''Sample 1'' (numeric_cols scores_frame)) = Inr ?before \<and>
      getitem scores_frame (selectbox (example_ui scores_csv ''T-Test'' ''Run T-Test'')
        ''Sample 2'' (numeric_cols scores_frame)) = Inr ?before \<and>
      ttest_ind example_libs ?before ?before = Inr (Finite 2, Finite 0.0499)"
    by (simp add: example_defs frame_defs sales_csv_def survey_csv_def scores_csv_def)
  from verdict_follows_threshold [where ss = "on_page ''hypothesis''"
      and U = "example_ui scores_csv ''T-Test'' ''Run T-Test''" and f = scores_csv
      and L = example_libs and df = scores_frame and ?s1.0 = ?before and ?s2.0 = ?before
      and t = "Finite 2" and p = "Finite 0.0499"] ttest
  have second: "Render (Success (''Reject H'' @ sub_zero @ '' '' @ em_dash @
         '' Significant Difference''))
     \<in> set (trace (snd (run_script example_libs (example_ui scores_csv ''T-Test'' ''Run T-Test'')
           (on_page ''hypothesis''))))"
    by blast
  have chi: "on_page ''hypothesis'' ''page'' = Some ''hypothesis'' \<and>
      file_uploader (example_ui survey_csv ''Chi-Square Test'' ''Run Chi-Square'')
        ''Upload CSV'' = Some survey_csv \<and>
      read_csv example_libs survey_csv = Inr survey_frame \<and>
      selectbox (example_ui survey_csv ''Chi-Square Test'' ''Run Chi-Square'') ''Select Test''
        [''T-Test'', ''Chi-Square Test''] = Some ''Chi-Square Test'' \<and>
      \<not> length (select_dtypes survey_frame [Object]) < 2 \<and>
      button (example_ui survey_csv ''Chi-Square Test'' ''Run Chi-Square'') ''Run Chi-Square'' \<and>
      getitem survey_frame (selectbox (example_ui survey_csv ''Chi-Square Test''
        ''Run Chi-Square'') ''Category 1'' (select_dtypes survey_frame [Object])) = Inr ?region \<and>
      getitem survey_frame (selectbox (example_ui survey_csv ''Chi-Square Test''
        ''Run Chi-Square'') ''Category 2'' (select_dtypes survey_frame [Object])) = Inr ?region \<and>
      crosstab example_libs ?region ?region = Inr ?table \<and>
      chi2_contingency example_libs ?table = Inr (Finite 4, Finite 0.0501, 1, [])"
    by (simp add: example_defs frame_defs sales_csv_def survey_csv_def scores_csv_def)
  have large: "\<not> float_lt (Finite 0.0501) lit_0_05"
    by (simp add: lit_0_05_def)
  from verdict_follows_threshold [where ss = "on_page ''hypothesis''"
      and U = "example_ui survey_csv ''Chi-Square Test'' ''Run Chi-Square''" and f = survey_csv
      and L = example_libs and df = survey_frame and ?s1.0 = ?region and ?s2.0 = ?region
      and contingency = ?table and chi = "Finite 4" and p = "Finite 0.0501" and dof = 1
      and expected = "[]"] chi large
  have third: "Render (Warning (''Fail to Reject H'' @ sub_zero @ '' '' @ em_dash @
         '' Independent''))
     \<in> set (trace (snd (run_script example_libs
           (example_ui survey_csv ''Chi-Square Test'' ''Run Chi-Square'')
           (on_page ''hypothesis''))))"
    by blast
  from first second third show ?thesis
    by blast
qed

text \<open>
  C2. In time-series mode, when no column name of the uploaded file contains \<open>date\<close> in any
  case, the run renders the error \<open>No date column found!\<close> and ends there by \<open>st.stop()\<close>,
  not by an exception: after reading the file it renders nothing else and calls no
  library (no plot, no decomposition, no ADF test, no forecast).
\<close>

theorem no_date_column_stops:
  assumes "ss ''page'' = Some ''time_series''"
    and "file_uploader U ''Upload CSV'' = Some f"
    and "read_csv L f = Inr df"
    and "\<forall>c \<in> set (frame_columns df). \<not> str_in ''date'' (lower c)"
  shows "run_script L U ss =
    (Inl Stop,
     \<lparr>session = ss,
      trace =
        [Render (Page_config ''TrendLab'' ''wide''),
         Render Page_style,
         Render (Button (left_arrow @ '' Back'')),
         Render (Markdown (''<h1 class='' @ [CHR 0x27] @ ''big-title'' @ [CHR 0x27] @ ''>'' @
           (chart_up @ '' Time Series Analysis'') @ ''</h1>'')),
         Render (File_uploader ''Upload CSV'' [''csv'']),
         Render Container,
         Render (Markdown (''<div class='' @ [CHR 0x27] @ ''card'' @ [CHR 0x27] @ ''>'')),
         Invoke (Read_csv f),
         Render (Error ''No date column found!'')]\<rparr>)"
proof -
  from assms(4) have "date_cols df = []"
    by (simp add: date_cols_def has_date_def filter_empty_conv)
  with assms(1-3) show ?thesis
    by (simp add: run_script_time_series result_time_series_page events_time_series_page
        result_ts_ingest events_ts_ingest)
qed

theorem no_date_column_stops_witness:
  "run_script example_libs (example_ui survey_csv ''T-Test'' []) (on_page ''time_series'') =
    (Inl Stop,
     \<lparr>session = on_page ''time_series'',
      trace =
        [Render (Page_config ''TrendLab'' ''wide''),
         Render Page_style,
         Render (Button (left_arrow @ '' Back'')),
         Render (Markdown (''<h1 class='' @ [CHR 0x27] @ ''big-title'' @ [CHR 0x27] @ ''>'' @
           (chart_up @ '' Time Series Analysis'') @ ''</h1>'')),
         Render (File_uploader ''Upload CSV'' [''csv'']),
         Render Container,
         Render (Markdown (''<div class='' @ [CHR 0x27] @ ''card'' @ [CHR 0x27] @ ''>'')),
         Invoke (Read_csv survey_csv),
         Render (Error ''No date column found!'')]\<rparr>)"
  by (rule no_date_column_stops [where df = survey_frame])
    (simp_all add: on_page_def example_ui_def example_libs_def survey_csv_def sales_csv_def
      survey_frame_def frame_columns_def lower_def lower_char_def)

text \<open>
  C3. In chi-square mode, when the uploaded file has fewer than two columns of dtype
  \<open>object\<close>, the run renders the error \<open>Need 2 categorical columns!\<close> and reaches the end
  of the script: no contingency table is built and no chi-square test is run (the only
  library call of the run is \<open>read_csv\<close>).
\<close>

theorem too_few_categorical_columns:
  assumes "ss ''page'' = Some ''hypothesis''"
    and "file_uploader U ''Upload CSV'' = Some f"
    and "read_csv L f = Inr df"
    and "selectbox U ''Select Test'' [''T-Test'', ''Chi-Square Test''] = Some ''Chi-Square Test''"
    and "length (filter (\<lambda>c. cdtype c = Object) (fcolumns df)) < 2"
  shows "run_script L U ss =
    (Inr (),
     \<lparr>session = ss,
      trace =
        [Render (Page_config ''TrendLab'' ''wide''),
         Render Page_style,
         Render (Button (left_arrow @ '' Back'')),
         Render (Markdown (''<h1 class='' @ [CHR 0x27] @ ''big-title'' @ [CHR 0x27] @ ''>'' @
           (bar_chart @ '' Hypothesis Testing'') @ ''</h1>'')),
         Render (File_uploader ''Upload CSV'' [''csv'']),
         Render (Markdown (''<div class='' @ [CHR 0x27] @ ''card'' @ [CHR 0x27] @ ''>'')),
         Invoke (Read_csv f),
         Render (Subheader (page_icon @ '' Data Preview'')),
         Render (Write [Table (head df)]),
         Render (Markdown ''</div>''),
         Render (Selectbox ''Select Test'' [''T-Test'', ''Chi-Square Test'']),
         Render (Error ''Need 2 categorical columns!'')]\<rparr>)"
proof -
  from assms(5) have "length (select_dtypes df [Object]) < 2"
    by (simp add: select_dtypes_def)
  with assms(1-4) show ?thesis
    by (simp add: run_script_hypothesis result_hypothesis_page events_hypothesis_page
        result_chi_square events_chi_square)
qed

theorem too_few_categorical_columns_witness:
  "fst (run_script example_libs (example_ui scores_csv ''Chi-Square Test'' [])
     (on_page ''hypothesis'')) = Inr () \<and>
   last (trace (snd (run_script example_libs (example_ui scores_csv ''Chi-Square Test'' [])
     (on_page ''hypothesis'')))) = Render (Error ''Need 2 categorical columns!'')"
  using too_few_categorical_columns [of "on_page ''hypothesis''"
      "example_ui scores_csv ''Chi-Square Test'' []" scores_csv example_libs scores_frame]
  by (simp add: on_page_def example_ui_def example_libs_def survey_csv_def sales_csv_def
      scores_csv_def scores_frame_def)

text \<open>
  C4. When the frame read from the upload has a column whose name contains \<open>date\<close> in any
  case, the ingestion takes the first such column in column order, whatever columns come
  after it: that column is the one handed to \<open>to_datetime\<close> (the only call after
  \<open>read_csv\<close>), and when the conversion returns, the converted column is the index of the
  frame and is no longer among its columns. When the conversion raises, the ingestion
  raises; no later candidate is tried.
\<close>

theorem first_date_column_is_index:
  assumes "read_csv L f = Inr df"
    and "fcolumns df = pre @ col # post"
    and "has_date (cname col)"
    and "\<forall>c \<in> set pre. \<not> has_date (cname c)"
  shows "date_cols df ! 0 = cname col \<and>
    invoked (events_of (ts_ingest L f)) =
      [Read_csv f, To_datetime \<lparr>sindex = findex df, sdata = col\<rparr>] \<and>
    result_of (ts_ingest L f) =
      (case to_datetime L \<lparr>sindex = findex df, sdata = col\<rparr> of
         Inl e \<Rightarrow> Inl (Raise e)
       | Inr parsed \<Rightarrow>
           Inr \<lparr>findex = Some ((sdata parsed)\<lparr>cname := cname col\<rparr>),
                fcolumns = filter (\<lambda>c. cname c \<noteq> cname col) (fcolumns df)\<rparr>)"
proof -
  have cols: "date_cols df = cname col # filter has_date (map cname post)"
    using assms(2-4) by (rule date_cols_first)
  have item: "getitem df (Some (cname col)) = Inr \<lparr>sindex = findex df, sdata = col\<rparr>"
    using assms(2-4) by (rule getitem_first_date)
  show ?thesis
    using assms(1) cols item
    by (simp add: result_ts_ingest events_ts_ingest set_index_setitem [OF item]
        split: sum.splits)
qed

theorem first_date_column_is_index_witness:
  "frame_columns orders_frame = [''Id'', ''ShipDATE'', ''order_date''] \<and>
   date_cols orders_frame ! 0 = ''ShipDATE'' \<and>
   invoked (events_of (ts_ingest orders_libs orders_csv)) =
     [Read_csv orders_csv,
      To_datetime \<lparr>sindex = None, sdata = \<lparr>cname = ''ShipDATE'', cdtype = Object,
        cvalues = [CStr ''2024-02-01'', CStr ''2024-03-01'']\<rparr>\<rparr>] \<and>
   (\<exists>df. result_of (ts_ingest orders_libs orders_csv) = Inr df \<and>
      map_option cname (findex df) = Some ''ShipDATE'' \<and>
      frame_columns df = [''Id'', ''order_date''])"
proof -
  let ?id = "\<lparr>cname = ''Id'', cdtype = Int64, cvalues = [CInt 1, CInt 2]\<rparr>"
  let ?ship = "\<lparr>cname = ''ShipDATE'', cdtype = Object,
    cvalues = [CStr ''2024-02-01'', CStr ''2024-03-01'']\<rparr>"
  let ?order = "\<lparr>cname = ''order_date'', cdtype = Object,
    cvalues = [CStr ''2024-01-01'', CStr ''2024-02-01'']\<rparr>"
  have names: "frame_columns orders_frame = [''Id'', ''ShipDATE'', ''order_date'']"
    by (simp add: frame_columns_def orders_frame_def)
  have read: "read_csv orders_libs orders_csv = Inr orders_frame"
    by (simp add: orders_libs_def)
  have split: "fcolumns orders_frame = [?id] @ ?ship # [?order]"
    by (simp add: orders_frame_def)
  have dated: "has_date (cname ?ship)"
    by (simp add: has_date_def lower_def lower_char_def)
  have before: "\<forall>c \<in> set [?id]. \<not> has_date (cname c)"
    by (simp add: has_date_def lower_def lower_char_def)
  have later: "has_date (cname ?order)"
    by (simp add: has_date_def lower_def lower_char_def)
  have conv: "to_datetime orders_libs \<lparr>sindex = findex orders_frame, sdata = ?ship\<rparr> =
      Inr \<lparr>sindex = None, sdata = ?ship\<lparr>cdtype := Datetime64\<rparr>\<rparr>"
    by (simp add: orders_libs_def example_libs_def orders_frame_def)
  note first = first_date_column_is_index [OF read split dated before]
  from first have "date_cols orders_frame ! 0 = ''ShipDATE''"
    by simp
  moreover from first have "invoked (events_of (ts_ingest orders_libs orders_csv)) =
     [Read_csv orders_csv, To_datetime \<lparr>sindex = None, sdata = ?ship\<rparr>]"
    by (simp add: orders_frame_def)
  moreover from first conv have "result_of (ts_ingest orders_libs orders_csv) =
      Inr \<lparr>findex = Some ((?ship\<lparr>cdtype := Datetime64\<rparr>)\<lparr>cname := ''ShipDATE''\<rparr>),
        fcolumns = filter (\<lambda>c. cname c \<noteq> ''ShipDATE'') (fcolumns orders_frame)\<rparr>"
    by simp
  then have "\<exists>df. result_of (ts_ingest orders_libs orders_csv) = Inr df \<and>
      map_option cname (findex df) = Some ''ShipDATE'' \<and>
      frame_columns df = [''Id'', ''order_date'']"
    by (simp add: frame_columns_def orders_frame_def)
  ultimately show ?thesis
    using names by blast
qed

text \<open>
  C5, as amended. In every run, every call of \<open>seasonal_decompose\<close> has the model
  \<open>additive\<close> and the period 12. When the call raises, the decomposition section renders
  the warning \<open>Decomposition error:\<close> followed by the message of the exception, closes
  its card, and the run goes on to the ADF section: its heading is rendered and
  \<open>adfuller\<close> is called on the same series. When \<open>adfuller\<close> returns, the forecast section
  renders too and the run reaches the end of the script.
\<close>

theorem decomposition_error_is_warning:
  assumes "ss ''page'' = Some ''time_series''"
    and "file_uploader U ''Upload CSV'' = Some f"
    and "result_of (ts_ingest L f) = Inr df"
    and "selectbox U ''Select Numeric Column'' (numeric_cols df) = column"
    and "getitem df column = Inr s"
    and "seasonal_decompose L s ''additive'' 12 = Inl e"
  shows "(\<forall>L' U' ss' x m p.
      Invoke (Seasonal_decompose x m p) \<in> set (trace (snd (run_script L' U' ss'))) \<longrightarrow>
      m = ''additive'' \<and> p = 12) \<and>
    events_of (ts_decomposition L df column) =
      [Render (Markdown (''<div class='' @ [CHR 0x27] @ ''card'' @ [CHR 0x27] @ ''>'')),
       Render (Subheader (magnifier @ '' Trend, Seasonality & Residual Decomposition'')),
       Invoke (Seasonal_decompose s ''additive'' 12),
       Render (Warning (''Decomposition error: '' @ exn_message e)),
       Render (Markdown ''</div>'')] \<and>
    trace (snd (run_script L U ss)) =
      [Render (Page_config ''TrendLab'' ''wide''),
       Render Page_style,
       Render (Button (left_arrow @ '' Back'')),
       Render (Markdown (''<h1 class='' @ [CHR 0x27] @ ''big-title'' @ [CHR 0x27] @ ''>'' @
         (chart_up @ '' Time Series Analysis'') @ ''</h1>'')),
       Render (File_uploader ''Upload CSV'' [''csv''])] @
      events_of (ts_ingest L f) @
      [Render (Selectbox ''Select Numeric Column'' (numeric_cols df))] @
      events_of (ts_plot df column) @
      events_of (ts_decomposition L df column) @
      events_of (ts_adf L df column) @
      (case adfuller L s of
         Inl a \<Rightarrow> []
       | Inr adf \<Rightarrow> events_of (ts_forecast L U df column)) \<and>
    Render (Subheader (pushpin @ '' ADF Stationarity Test'')) \<in>
      set (trace (snd (run_script L U ss))) \<and>
    Invoke (Adfuller s) \<in> set (trace (snd (run_script L U ss))) \<and>
    (\<forall>adf. adfuller L s = Inr adf \<longrightarrow>
       fst (run_script L U ss) = Inr () \<and>
       Render (Subheader (crystal_ball @ '' Forecast (ARIMA)'')) \<in>
         set (trace (snd (run_script L U ss))) \<and>
       Render (Slider ''Forecast Steps:'' 5 60 12) \<in> set (trace (snd (run_script L U ss))))"
proof -
  let ?tr = "trace (snd (run_script L U ss))"
  have fixed: "m = ''additive'' \<and> p = 12"
    if "Invoke (Seasonal_decompose x m p) \<in> set (trace (snd (run_script L' U' ss')))"
    for L' U' ss' x m p
    using list_all_mem [OF fixed_run that] by simp
  have dec: "events_of (ts_decomposition L df column) =
      [Render (Markdown (''<div class='' @ [CHR 0x27] @ ''card'' @ [CHR 0x27] @ ''>'')),
       Render (Subheader (magnifier @ '' Trend, Seasonality & Residual Decomposition'')),
       Invoke (Seasonal_decompose s ''additive'' 12),
       Render (Warning (''Decomposition error: '' @ exn_message e)),
       Render (Markdown ''</div>'')]"
    using assms(5,6) by (simp add: events_ts_decomposition)
  have tr: "?tr =
      [Render (Page_config ''TrendLab'' ''wide''),
       Render Page_style,
       Render (Button (left_arrow @ '' Back'')),
       Render (Markdown (''<h1 class='' @ [CHR 0x27] @ ''big-title'' @ [CHR 0x27] @ ''>'' @
         (chart_up @ '' Time Series Analysis'') @ ''</h1>'')),
       Render (File_uploader ''Upload CSV'' [''csv''])] @
      events_of (ts_ingest L f) @
      [Render (Selectbox ''Select Numeric Column'' (numeric_cols df))] @
      events_of (ts_plot df column) @
      events_of (ts_decomposition L df column) @
      events_of (ts_adf L df column) @
      (case adfuller L s of
         Inl a \<Rightarrow> []
       | Inr adf \<Rightarrow> events_of (ts_forecast L U df column))"
    using assms(1-5)
    by (cases "adfuller L s") (simp_all add: run_script_time_series events_time_series_page)
  have adf: "Render (Subheader (pushpin @ '' ADF Stationarity Test'')) \<in> set ?tr"
    "Invoke (Adfuller s) \<in> set ?tr"
    unfolding tr using assms(5) by (simp_all add: events_ts_adf)
  have fc: "fst (run_script L U ss) = Inr () \<and>
      Render (Subheader (crystal_ball @ '' Forecast (ARIMA)'')) \<in> set ?tr \<and>
      Render (Slider ''Forecast Steps:'' 5 60 12) \<in> set ?tr"
    if "adfuller L s = Inr adf" for adf
    unfolding tr using assms(1-5) that
    by (simp add: run_script_time_series result_time_series_page events_ts_forecast)
  from fixed dec tr adf fc show ?thesis
    by blast
qed

theorem decomposition_error_is_warning_witness:
  "Render (Warning (''Decomposition error: '' @
       ''x must have 2 complete cycles requires 24 observations. x only has 3 observation(s)''))
     \<in> set (events_of (ts_decomposition example_libs sales_indexed (Some ''Sales''))) \<and>
   fst (run_script example_libs (example_ui sales_csv ''T-Test'' []) (on_page ''time_series'')) =
     Inr () \<and>
   Render (Subheader (crystal_ball @ '' Forecast (ARIMA)'')) \<in>
     set (trace (snd (run_script example_libs (example_ui sales_csv ''T-Test'' [])
       (on_page ''time_series''))))"
proof -
  have page: "on_page ''time_series'' ''page'' = Some ''time_series''"
    by (simp add: on_page_def)
  have upload: "file_uploader (example_ui sales_csv ''T-Test'' []) ''Upload CSV'' = Some sales_csv"
    by (simp add: example_ui_def)
  have column: "selectbox (example_ui sales_csv ''T-Test'' []) ''Select Numeric Column''
      (numeric_cols sales_indexed) = Some ''Sales''"
    by (rule example_column)
  have raises: "seasonal_decompose example_libs sales_series ''additive'' 12 =
      Inl (Exn ''ValueError''
        ''x must have 2 complete cycles requires 24 observations. x only has 3 observation(s)'')"
    by (simp add: example_libs_def)
  have returns: "adfuller example_libs sales_series = Inr (Finite (- 3), Finite 0.01)"
    by (simp add: example_libs_def)
  note run = decomposition_error_is_warning [of "on_page ''time_series''"
      "example_ui sales_csv ''T-Test'' []" sales_csv example_libs sales_indexed
      "Some ''Sales''" sales_series
      "Exn ''ValueError''
        ''x must have 2 complete cycles requires 24 observations. x only has 3 observation(s)''"]
  note facts = run [OF page upload example_ingest column example_getitem raises]
  from facts have "events_of (ts_decomposition example_libs sales_indexed (Some ''Sales'')) =
      [Render (Markdown (''<div class='' @ [CHR 0x27] @ ''card'' @ [CHR 0x27] @ ''>'')),
       Render (Subheader (magnifier @ '' Trend, Seasonality & Residual Decomposition'')),
       Invoke (Seasonal_decompose sales_series ''additive'' 12),
       Render (Warning (''Decomposition error: '' @ exn_message (Exn ''ValueError''
        ''x must have 2 complete cycles requires 24 observations. x only has 3 observation(s)''))),
       Render (Markdown ''</div>'')]"
    by blast
  then have shown: "Render (Warning (''Decomposition error: '' @
       ''x must have 2 complete cycles requires 24 observations. x only has 3 observation(s)''))
     \<in> set (events_of (ts_decomposition example_libs sales_indexed (Some ''Sales'')))"
    by simp
  from facts returns have "fst (run_script example_libs (example_ui sales_csv ''T-Test'' [])
       (on_page ''time_series'')) = Inr () \<and>
     Render (Subheader (crystal_ball @ '' Forecast (ARIMA)'')) \<in>
       set (trace (snd (run_script example_libs (example_ui sales_csv ''T-Test'' [])
         (on_page ''time_series''))))"
    by blast
  with shown show ?thesis
    by blast
qed

text \<open>
  As stated, with the forecast rendering after every failed decomposition, the claim
  fails on a series of three observations: the decomposition raises and is reported,
  then \<open>adfuller\<close> raises as well (the sample is too short), the run ends with that
  exception and the forecast section is not rendered.
\<close>

theorem decomposition_then_adf_failure:
  "seasonal_decompose short_series_libs sales_series ''additive'' 12 =
     Inl (Exn ''ValueError''
       ''x must have 2 complete cycles requires 24 observations. x only has 3 observation(s)'') \<and>
   Render (Warning (''Decomposition error: '' @
       ''x must have 2 complete cycles requires 24 observations. x only has 3 observation(s)''))
     \<in> set (trace (snd (run_script short_series_libs (example_ui sales_csv ''T-Test'' [])
           (on_page ''time_series'')))) \<and>
   fst (run_script short_series_libs (example_ui sales_csv ''T-Test'' [])
     (on_page ''time_series'')) =
     Inl (Raise (Exn ''ValueError''
       ''sample size is too short to use selected regression component'')) \<and>
   Render (Subheader (crystal_ball @ '' Forecast (ARIMA)''))
     \<notin> set (trace (snd (run_script short_series_libs (example_ui sales_csv ''T-Test'' [])
           (on_page ''time_series''))))"
  by (simp add: run_simps example_defs frame_defs icon_defs)

text \<open>
  C6. Take a slider widget that returns a value within the bounds it is given, and a
  forecast routine that returns as many values as it is asked for. Then in every run the
  only slider rendered is \<open>Forecast Steps:\<close> with the bounds 5 and 60 and the default 12,
  every forecast is asked for the number of steps that slider returned, an integer from
  5 to 60, and a chart the forecast section renders has exactly the two lines labelled
  \<open>History\<close> and \<open>Forecast\<close>, the latter of that many values; when the three ARIMA
  calls return, that chart is rendered.
\<close>

theorem forecast_horizon_in_range:
  assumes "\<forall>label lo hi dflt. lo \<le> dflt \<and> dflt \<le> hi \<longrightarrow>
      lo \<le> slider U label lo hi dflt \<and> slider U label lo hi dflt \<le> hi"
    and "\<forall>fit n future. arima_forecast L fit n = Inr future \<longrightarrow>
      length (cvalues (sdata future)) = nat n"
  shows "(\<forall>ss label lo hi dflt.
      Render (Slider label lo hi dflt) \<in> set (trace (snd (run_script L U ss))) \<longrightarrow>
      label = ''Forecast Steps:'' \<and> lo = 5 \<and> hi = 60 \<and> dflt = 12) \<and>
    (\<forall>ss fit n.
      Invoke (Arima_forecast fit n) \<in> set (trace (snd (run_script L U ss))) \<longrightarrow>
      n = slider U ''Forecast Steps:'' 5 60 12 \<and> 5 \<le> n \<and> n \<le> 60) \<and>
    (\<forall>df column fig.
      Render (Pyplot fig) \<in> set (events_of (ts_forecast L U df column)) \<longrightarrow>
      (\<exists>history future.
         fig = Line_chart (12, 4) [(Some ''History'', history), (Some ''Forecast'', future)]
           None True \<and>
         length (cvalues (sdata future)) = nat (slider U ''Forecast Steps:'' 5 60 12))) \<and>
    (\<forall>df column s model fit future.
      getitem df column = Inr s \<and> arima L s (1, 1, 1) = Inr model \<and>
      arima_fit L model = Inr fit \<and>
      arima_forecast L fit (slider U ''Forecast Steps:'' 5 60 12) = Inr future \<longrightarrow>
      Render (Pyplot (Line_chart (12, 4) [(Some ''History'', s), (Some ''Forecast'', future)]
        None True)) \<in> set (events_of (ts_forecast L U df column)) \<and>
      length (cvalues (sdata future)) = nat (slider U ''Forecast Steps:'' 5 60 12))"
proof -
  from assms(1) have range: "5 \<le> slider U ''Forecast Steps:'' 5 60 12"
    "slider U ''Forecast Steps:'' 5 60 12 \<le> 60"
    by simp_all
  have sliders: "label = ''Forecast Steps:'' \<and> lo = 5 \<and> hi = 60 \<and> dflt = 12"
    if "Render (Slider label lo hi dflt) \<in> set (trace (snd (run_script L U ss)))"
    for ss label lo hi dflt
    using list_all_mem [OF horizon_run that] by simp
  have calls: "n = slider U ''Forecast Steps:'' 5 60 12 \<and> 5 \<le> n \<and> n \<le> 60"
    if "Invoke (Arima_forecast fit n) \<in> set (trace (snd (run_script L U ss)))"
    for ss fit n
    using list_all_mem [OF horizon_run that] range by simp
  have plots: "\<exists>history future.
         fig = Line_chart (12, 4) [(Some ''History'', history), (Some ''Forecast'', future)]
           None True \<and>
         length (cvalues (sdata future)) = nat (slider U ''Forecast Steps:'' 5 60 12)"
    if "Render (Pyplot fig) \<in> set (events_of (ts_forecast L U df column))"
    for df column fig
    using that assms(2) by (auto simp add: events_ts_forecast split: sum.splits)
  have success: "Render (Pyplot (Line_chart (12, 4)
        [(Some ''History'', s), (Some ''Forecast'', future)] None True))
        \<in> set (events_of (ts_forecast L U df column)) \<and>
      length (cvalues (sdata future)) = nat (slider U ''Forecast Steps:'' 5 60 12)"
    if "getitem df column = Inr s \<and> arima L s (1, 1, 1) = Inr model \<and>
      arima_fit L model = Inr fit \<and>
      arima_forecast L fit (slider U ''Forecast Steps:'' 5 60 12) = Inr future"
    for df column s model fit future
    using that assms(2) by (auto simp add: events_ts_forecast)
  from sliders calls plots success show ?thesis
    by blast
qed

theorem forecast_horizon_in_range_witness:
  "slider (example_ui sales_csv ''T-Test'' []) ''Forecast Steps:'' 5 60 12 = 12 \<and>
   (\<exists>future.
      Render (Pyplot (Line_chart (12, 4)
        [(Some ''History'', sales_series), (Some ''Forecast'', future)] None True))
        \<in> set (events_of (ts_forecast example_libs (example_ui sales_csv ''T-Test'' [])
              sales_indexed (Some ''Sales''))) \<and>
      length (cvalues (sdata future)) = 12)"
proof -
  let ?U = "example_ui sales_csv ''T-Test'' []"
  have widget: "\<forall>label lo hi dflt. lo \<le> dflt \<and> dflt \<le> hi \<longrightarrow>
      lo \<le> slider ?U label lo hi dflt \<and> slider ?U label lo hi dflt \<le> hi"
    by (simp add: example_ui_def)
  have library: "\<forall>fit n future. arima_forecast example_libs fit n = Inr future \<longrightarrow>
      length (cvalues (sdata future)) = nat n"
    by (auto simp add: example_libs_def)
  have steps: "slider ?U ''Forecast Steps:'' 5 60 12 = 12"
    by (simp add: example_ui_def)
  have path: "getitem sales_indexed (Some ''Sales'') = Inr sales_series \<and>
      arima example_libs sales_series (1, 1, 1) = Inr (ARIMA_model sales_series (1, 1, 1)) \<and>
      arima_fit example_libs (ARIMA_model sales_series (1, 1, 1)) =
        Inr (ARIMA_results (ARIMA_model sales_series (1, 1, 1)) []) \<and>
      arima_forecast example_libs (ARIMA_results (ARIMA_model sales_series (1, 1, 1)) [])
        (slider ?U ''Forecast Steps:'' 5 60 12) =
        Inr \<lparr>sindex = None, sdata = \<lparr>cname = ''predicted_mean'', cdtype = Float64,
          cvalues = replicate (nat (slider ?U ''Forecast Steps:'' 5 60 12))
            (CFloat (Finite 0))\<rparr>\<rparr>"
    by (simp add: example_getitem example_libs_def)
  from forecast_horizon_in_range [OF widget library] path
  have "Render (Pyplot (Line_chart (12, 4)
        [(Some ''History'', sales_series),
         (Some ''Forecast'', \<lparr>sindex = None, sdata = \<lparr>cname = ''predicted_mean'',
            cdtype = Float64,
            cvalues = replicate (nat (slider ?U ''Forecast Steps:'' 5 60 12))
              (CFloat (Finite 0))\<rparr>\<rparr>)] None True))
        \<in> set (events_of (ts_forecast example_libs ?U sales_indexed (Some ''Sales''))) \<and>
      length (cvalues (sdata \<lparr>sindex = None, sdata = \<lparr>cname = ''predicted_mean'',
            cdtype = Float64,
            cvalues = replicate (nat (slider ?U ''Forecast Steps:'' 5 60 12))
              (CFloat (Finite 0))\<rparr>\<rparr>)) = nat (slider ?U ''Forecast Steps:'' 5 60 12)"
    by blast
  with steps show ?thesis
    by auto
qed

text \<open>
  C7. In every run, every ARIMA model is built with the order (1,1,1). The forecast
  section always returns: whatever exception the construction, the fit or the forecast
  raises, and at whichever of the three calls, the section renders the same elements,
  the fixed warning \<open>ARIMA failed. Try more data.\<close> between the slider and the end of the
  card, with nothing of the exception in them; and a run that reaches the section
  reaches the end of the script.
\<close>

theorem arima_failure_is_generic_warning:
  assumes "ss ''page'' = Some ''time_series''"
    and "file_uploader U ''Upload CSV'' = Some f"
    and "result_of (ts_ingest L f) = Inr df"
    and "selectbox U ''Select Numeric Column'' (numeric_cols df) = column"
    and "getitem df column = Inr s"
    and "adfuller L s = Inr adf"
    and "arima L s (1, 1, 1) = Inl e \<or>
      (\<exists>model. arima L s (1, 1, 1) = Inr model \<and>
        (arima_fit L model = Inl e \<or>
         (\<exists>fit. arima_fit L model = Inr fit \<and>
            arima_forecast L fit (slider U ''Forecast Steps:'' 5 60 12) = Inl e)))"
  shows "(\<forall>L' U' ss' x order.
      Invoke (Arima x order) \<in> set (trace (snd (run_script L' U' ss'))) \<longrightarrow>
      order = (1, 1, 1)) \<and>
    result_of (ts_forecast L U df column) = Inr () \<and>
    rendered (events_of (ts_forecast L U df column)) =
      [Markdown (''<div class='' @ [CHR 0x27] @ ''card'' @ [CHR 0x27] @ ''>''),
       Subheader (crystal_ball @ '' Forecast (ARIMA)''),
       Slider ''Forecast Steps:'' 5 60 12,
       Warning ''ARIMA failed. Try more data.'',
       Markdown ''</div>''] \<and>
    fst (run_script L U ss) = Inr () \<and>
    (\<exists>before. trace (snd (run_script L U ss)) =
       before @ events_of (ts_forecast L U df column))"
proof -
  have fixed: "order = (1, 1, 1)"
    if "Invoke (Arima x order) \<in> set (trace (snd (run_script L' U' ss')))"
    for L' U' ss' x order
    using list_all_mem [OF fixed_run that] by simp
  have shown: "rendered (events_of (ts_forecast L U df column)) =
      [Markdown (''<div class='' @ [CHR 0x27] @ ''card'' @ [CHR 0x27] @ ''>''),
       Subheader (crystal_ball @ '' Forecast (ARIMA)''),
       Slider ''Forecast Steps:'' 5 60 12,
       Warning ''ARIMA failed. Try more data.'',
       Markdown ''</div>'']"
    using assms(5,7) by (auto simp add: events_ts_forecast)
  have ends: "fst (run_script L U ss) = Inr ()"
    using assms(1-6) by (simp add: run_script_time_series result_time_series_page)
  have "trace (snd (run_script L U ss)) =
      ([Render (Page_config ''TrendLab'' ''wide''),
       Render Page_style,
       Render (Button (left_arrow @ '' Back'')),
       Render (Markdown (''<h1 class='' @ [CHR 0x27] @ ''big-title'' @ [CHR 0x27] @ ''>'' @
         (chart_up @ '' Time Series Analysis'') @ ''</h1>'')),
       Render (File_uploader ''Upload CSV'' [''csv''])] @
      events_of (ts_ingest L f) @
      [Render (Selectbox ''Select Numeric Column'' (numeric_cols df))] @
      events_of (ts_plot df column) @
      events_of (ts_decomposition L df column) @
      events_of (ts_adf L df column)) @
      events_of (ts_forecast L U df column)"
    using assms(1-6) by (simp add: run_script_time_series events_time_series_page)
  then have last: "\<exists>before. trace (snd (run_script L U ss)) =
      before @ events_of (ts_forecast L U df column)"
    by blast
  from fixed shown ends last result_ts_forecast [of L U df column] show ?thesis
    by blast
qed

theorem arima_failure_is_generic_warning_witness:
  "fst (run_script failing_fit_libs (example_ui sales_csv ''T-Test'' [])
     (on_page ''time_series'')) = Inr () \<and>
   rendered (events_of (ts_forecast failing_fit_libs (example_ui sales_csv ''T-Test'' [])
     sales_indexed (Some ''Sales''))) =
      [Markdown (''<div class='' @ [CHR 0x27] @ ''card'' @ [CHR 0x27] @ ''>''),
       Subheader (crystal_ball @ '' Forecast (ARIMA)''),
       Slider ''Forecast Steps:'' 5 60 12,
       Warning ''ARIMA failed. Try more data.'',
       Markdown ''</div>'']"
proof -
  have page: "on_page ''time_series'' ''page'' = Some ''time_series''"
    by (simp add: on_page_def)
  have upload: "file_uploader (example_ui sales_csv ''T-Test'' []) ''Upload CSV'' = Some sales_csv"
    by (simp add: example_ui_def)
  have ingest: "result_of (ts_ingest failing_fit_libs sales_csv) = Inr sales_indexed"
    by (simp add: result_ts_ingest example_defs frame_defs)
  have column: "selectbox (example_ui sales_csv ''T-Test'' []) ''Select Numeric Column''
      (numeric_cols sales_indexed) = Some ''Sales''"
    by (rule example_column)
  have adf: "adfuller failing_fit_libs sales_series = Inr (Finite (- 3), Finite 0.01)"
    by (simp add: failing_fit_libs_def example_libs_def)
  have fails: "arima failing_fit_libs sales_series (1, 1, 1) =
        Inl (Exn ''LinAlgError'' ''Schur decomposition solver error.'') \<or>
      (\<exists>model. arima failing_fit_libs sales_series (1, 1, 1) = Inr model \<and>
        (arima_fit failing_fit_libs model =
           Inl (Exn ''LinAlgError'' ''Schur decomposition solver error.'') \<or>
         (\<exists>fit. arima_fit failing_fit_libs model = Inr fit \<and>
            arima_forecast failing_fit_libs fit
              (slider (example_ui sales_csv ''T-Test'' []) ''Forecast Steps:'' 5 60 12) =
              Inl (Exn ''LinAlgError'' ''Schur decomposition solver error.''))))"
    by (simp add: failing_fit_libs_def example_libs_def)
  note run = arima_failure_is_generic_warning [of "on_page ''time_series''"
      "example_ui sales_csv ''T-Test'' []" sales_csv failing_fit_libs sales_indexed
      "Some ''Sales''" sales_series "(Finite (- 3), Finite 0.01)"
      "Exn ''LinAlgError'' ''Schur decomposition solver error.''"]
  from run [OF page upload ingest column example_getitem adf fails] show ?thesis
    by blast
qed




text \<open>
  C9. The page field of the session state is one of \<open>home\<close>, \<open>time_series\<close> and
  \<open>hypothesis\<close> in every session state a session can reach: after the first load from the
  empty session state, and after any interaction from there, a rerun of the script or a
  click on \<open>Back\<close> (whose callback is \<open>go_to("home")\<close>). Every interaction keeps the
  property. The first load initialises the field to \<open>home\<close>, and it is \<open>home\<close> after a
  first run in which no button is clicked.
\<close>

theorem page_is_known:
  "(reachable L ss \<longrightarrow> known_page ss) \<and>
   (\<forall>i ss'. known_page ss' \<longrightarrow> known_page (interact L i ss')) \<and>
   session (snd (init_page \<lparr>session = Map.empty, trace = []\<rparr>)) ''page'' = Some ''home'' \<and>
   (\<forall>U. (\<forall>label. \<not> button U label) \<longrightarrow>
      interact L (Rerun U) Map.empty ''page'' = Some ''home'')"
proof -
  have inv: "known_page ss" if "reachable L ss"
    using that
  proof (induction rule: reachable.induct)
    case (first_load U)
    show ?case by (simp add: known_after_run)
  next
    case (step ss i)
    then show ?case by (simp add: known_after_interact)
  qed
  have init: "session (snd (init_page \<lparr>session = Map.empty, trace = []\<rparr>)) ''page'' =
      Some ''home''"
    by (simp add: init_page_def)
  have first: "interact L (Rerun U) Map.empty ''page'' = Some ''home''"
    if "\<forall>label. \<not> button U label" for U
    using that by (simp add: run_script_def script_session Let_def)
  from inv known_after_interact init first show ?thesis
    by blast
qed

theorem page_is_known_witness:
  "reachable example_libs
     (interact example_libs (Click_back (example_ui sales_csv ''T-Test'' []))
       (interact example_libs
         (Rerun (example_ui sales_csv ''T-Test'' (chart_up @ '' Time Series Analysis'')))
         Map.empty)) \<and>
   known_page
     (interact example_libs (Click_back (example_ui sales_csv ''T-Test'' []))
       (interact example_libs
         (Rerun (example_ui sales_csv ''T-Test'' (chart_up @ '' Time Series Analysis'')))
         Map.empty)) \<and>
   interact example_libs
     (Rerun (example_ui sales_csv ''T-Test'' (chart_up @ '' Time Series Analysis'')))
     Map.empty ''page'' = Some ''time_series''"
proof -
  let ?first = "interact example_libs
     (Rerun (example_ui sales_csv ''T-Test'' (chart_up @ '' Time Series Analysis'')))
     Map.empty"
  let ?home = "interact example_libs (Click_back (example_ui sales_csv ''T-Test'' [])) ?first"
  have "reachable example_libs ?first"
    by (rule reachable.first_load)
  then have r: "reachable example_libs ?home"
    by (rule reachable.step)
  with page_is_known [of example_libs ?home] have k: "known_page ?home"
    by blast
  have "?first ''page'' = Some ''time_series''"
    by (simp add: run_script_def script_session Let_def example_ui_def icon_defs)
  with r k show ?thesis
    by blast
qed

text \<open>
  C10. The ADF test has no handler: when \<open>adfuller\<close> raises on the chosen series, the run
  ends with that exception right after the call. Nothing is rendered after the heading
  of the ADF section: no warning for the failure (the only warnings a run can hold at
  that point are the decomposition's), no forecast heading, no slider, no ARIMA call.
\<close>

theorem adfuller_error_unhandled:
  assumes "ss ''page'' = Some ''time_series''"
    and "file_uploader U ''Upload CSV'' = Some f"
    and "result_of (ts_ingest L f) = Inr df"
    and "selectbox U ''Select Numeric Column'' (numeric_cols df) = column"
    and "getitem df column = Inr s"
    and "adfuller L s = Inl e"
  shows "fst (run_script L U ss) = Inl (Raise e) \<and>
    trace (snd (run_script L U ss)) =
      [Render (Page_config ''TrendLab'' ''wide''),
       Render Page_style,
       Render (Button (left_arrow @ '' Back'')),
       Render (Markdown (''<h1 class='' @ [CHR 0x27] @ ''big-title'' @ [CHR 0x27] @ ''>'' @
         (chart_up @ '' Time Series Analysis'') @ ''</h1>'')),
       Render (File_uploader ''Upload CSV'' [''csv''])] @
      events_of (ts_ingest L f) @
      [Render (Selectbox ''Select Numeric Column'' (numeric_cols df))] @
      events_of (ts_plot df column) @
      events_of (ts_decomposition L df column) @
      [Render (Markdown (''<div class='' @ [CHR 0x27] @ ''card'' @ [CHR 0x27] @ ''>'')),
       Render (Subheader (pushpin @ '' ADF Stationarity Test'')),
       Invoke (Adfuller s)] \<and>
    Render (Subheader (crystal_ball @ '' Forecast (ARIMA)'')) \<notin>
      set (trace (snd (run_script L U ss))) \<and>
    Render (Slider ''Forecast Steps:'' 5 60 12) \<notin> set (trace (snd (run_script L U ss))) \<and>
    (\<forall>x order. Invoke (Arima x order) \<notin> set (trace (snd (run_script L U ss)))) \<and>
    (\<forall>m. Render (Warning m) \<in> set (trace (snd (run_script L U ss))) \<longrightarrow>
       (\<exists>d. m = ''Decomposition error: '' @ d))"
proof -
  let ?tr = "trace (snd (run_script L U ss))"
  have res: "fst (run_script L U ss) = Inl (Raise e)"
    using assms by (simp add: run_script_time_series result_time_series_page)
  have tr: "?tr =
      [Render (Page_config ''TrendLab'' ''wide''),
       Render Page_style,
       Render (Button (left_arrow @ '' Back'')),
       Render (Markdown (''<h1 class='' @ [CHR 0x27] @ ''big-title'' @ [CHR 0x27] @ ''>'' @
         (chart_up @ '' Time Series Analysis'') @ ''</h1>'')),
       Render (File_uploader ''Upload CSV'' [''csv''])] @
      events_of (ts_ingest L f) @
      [Render (Selectbox ''Select Numeric Column'' (numeric_cols df))] @
      events_of (ts_plot df column) @
      events_of (ts_decomposition L df column) @
      [Render (Markdown (''<div class='' @ [CHR 0x27] @ ''card'' @ [CHR 0x27] @ ''>'')),
       Render (Subheader (pushpin @ '' ADF Stationarity Test'')),
       Invoke (Adfuller s)]"
    using assms by (simp add: run_script_time_series events_time_series_page events_ts_adf)
  have sub: "Render (Subheader (crystal_ball @ '' Forecast (ARIMA)'')) \<notin> set ?tr"
    unfolding tr
    by (auto simp add: icon_defs dest!: ingest_events plot_events decomposition_events)
  have sl: "Render (Slider ''Forecast Steps:'' 5 60 12) \<notin> set ?tr"
    unfolding tr
    by (auto dest!: ingest_events plot_events decomposition_events)
  have ar: "Invoke (Arima x order) \<notin> set ?tr" for x order
    unfolding tr
    by (auto dest!: ingest_events plot_events decomposition_events)
  have wa: "\<exists>d. m = ''Decomposition error: '' @ d" if "Render (Warning m) \<in> set ?tr" for m
    using that unfolding tr
    by (auto dest!: ingest_events plot_events decomposition_events)
  from res tr sub sl ar wa show ?thesis
    by blast
qed

theorem adfuller_error_unhandled_witness:
  "fst (run_script short_series_libs (example_ui sales_csv ''T-Test'' [])
     (on_page ''time_series'')) =
     Inl (Raise (Exn ''ValueError''
       ''sample size is too short to use selected regression component'')) \<and>
   Render (Subheader (crystal_ball @ '' Forecast (ARIMA)'')) \<notin>
     set (trace (snd (run_script short_series_libs (example_ui sales_csv ''T-Test'' [])
       (on_page ''time_series''))))"
proof -
  have ingest: "result_of (ts_ingest short_series_libs sales_csv) = Inr sales_indexed"
    by (simp add: result_ts_ingest short_series_libs_def example_libs_def sales_frame_def
        sales_indexed_def date_cols_def frame_columns_def has_date_def lower_def
        lower_char_def getitem_def setitem_def set_index_def)
  have page: "on_page ''time_series'' ''page'' = Some ''time_series''"
    by (simp add: on_page_def)
  have upload: "file_uploader (example_ui sales_csv ''T-Test'' []) ''Upload CSV'' = Some sales_csv"
    by (simp add: example_ui_def)
  have raises: "adfuller short_series_libs sales_series =
      Inl (Exn ''ValueError'' ''sample size is too short to use selected regression component'')"
    by (simp add: short_series_libs_def)
  have column: "selectbox (example_ui sales_csv ''T-Test'' []) ''Select Numeric Column''
      (numeric_cols sales_indexed) = Some ''Sales''"
    by (rule example_column)
  note run = adfuller_error_unhandled [of "on_page ''time_series''"
      "example_ui sales_csv ''T-Test'' []" sales_csv short_series_libs sales_indexed
      "Some ''Sales''" sales_series
      "Exn ''ValueError'' ''sample size is too short to use selected regression component''"]
  from run [OF page upload ingest column example_getitem raises]
  show ?thesis
    by blast
qed

end
